theory Spec2Isabelle
  imports Main "HOL-Library.Word" "HOL-Library.Signed_Division"
begin

unbundle bit_operations_syntax

section \<open>Kernel monitor (kern/monitor.c)\<close>

subsection \<open>Machine data\<close>

type_synonym u8 = "8 word"
type_synonym u32 = "32 word"

text \<open>
  Modelled from the spec: \<open>inc/trap.h\<close> is not among the sources. The two trap causes
  the step controller tests are the processor's debug and breakpoint vectors.
\<close>

definition T_DEBUG :: u32 where
  "T_DEBUG = 1"

definition T_BRKPT :: u32 where
  "T_BRKPT = 3"

text \<open>
  Modelled from the spec: \<open>struct Trapframe\<close> (declared in \<open>inc/trap.h\<close>, not among the
  sources) is the saved processor state of the suspended program: trap cause, program
  counter, flags register, saved frame pointer. The record is extensible; every
  statement below is over \<open>'a Trapframe_scheme\<close>, so the remaining fields of the C
  struct are the extension.
\<close>

record Trapframe =
  tf_trapno :: u32
  tf_eip :: u32
  tf_eflags :: u32
  tf_ebp :: u32

text \<open>
  What the monitor does on the console, in order: a call of \<open>cprintf\<close> (the format
  string and its arguments), a call of \<open>readline\<close> (its prompt), a call of
  \<open>print_trapframe\<close>. The console driver and the line reader are outside the monitor.
\<close>

datatype carg = A_str string | A_u32 u32 | A_int int

datatype cevent = Cprintf string "carg list" | Readline string | Print_trapframe Trapframe

text \<open>
  What stops the kernel instead of returning: \<open>panic\<close> with its message, and a read
  through a null trap-frame pointer.
\<close>

datatype fatal = Panic string | Null_trapframe

subsection \<open>Debug-step controller\<close>

text \<open>
  \<open>mon_step\<close> and \<open>mon_exitstep\<close> on the trap frame \<open>tf\<close> points to: either the kernel
  panics, or the handler returns its status together with the updated frame.
  \<open>0x100\<close> is the trap flag, \<open>0x10000\<close> the resume flag.
\<close>

definition mon_step :: "'a Trapframe_scheme \<Rightarrow> fatal + (int \<times> 'a Trapframe_scheme)" where
  "mon_step tf =
     (if tf_trapno tf \<noteq> T_DEBUG \<and> tf_trapno tf \<noteq> T_BRKPT
      then Inl (Panic ''Not already in debugging mode when calling step\<newline>'')
      else
        let eflags = tf_eflags tf;
            eflags = eflags OR 0x100;
            eflags = eflags AND NOT 0x10000
        in Inr (- 2, tf\<lparr>tf_eflags := eflags\<rparr>))"

definition mon_exitstep :: "'a Trapframe_scheme \<Rightarrow> fatal + (int \<times> 'a Trapframe_scheme)" where
  "mon_exitstep tf =
     (if tf_trapno tf \<noteq> T_DEBUG \<and> tf_trapno tf = T_BRKPT
      then Inl (Panic ''Not already in debugging mode when calling exitstep\<newline>'')
      else if tf_eflags tf AND 0x100 = 0
      then Inl (Panic ''Not in single stepping mode when calling exitstep\<newline>'')
      else
        let eflags = tf_eflags tf;
            eflags = eflags OR 0x10000;
            eflags = eflags AND NOT 0x100
        in Inr (- 2, tf\<lparr>tf_eflags := eflags\<rparr>))"

subsection \<open>What the monitor runs on\<close>

text \<open>
  \<open>struct Eipdebuginfo\<close> (\<open>kern/kdebug.h\<close>), filled in by \<open>debuginfo_eip\<close>.
\<close>

record Eipdebuginfo =
  eip_file :: string
  eip_line :: int
  eip_fn_name :: string
  eip_fn_namelen :: int
  eip_fn_addr :: u32
  eip_fn_narg :: int

text \<open>
  The machine under the monitor, read only: \<open>load32 m a\<close> is the word \<open>*(uint32_t *)a\<close>,
  \<open>read_ebp m\<close> the frame pointer register when \<open>mon_backtrace\<close> reads it,
  \<open>debuginfo_eip m a\<close> the symbol resolver's answer for the address \<open>a\<close> (\<open>None\<close> when it
  returns a negative value), and the five linker symbols \<open>mon_kerninfo\<close> prints.
\<close>

record machine =
  load32 :: "u32 \<Rightarrow> u32"
  read_ebp :: u32
  debuginfo_eip :: "u32 \<Rightarrow> Eipdebuginfo option"
  sym_start :: u32
  sym_entry :: u32
  sym_etext :: u32
  sym_edata :: u32
  sym_end :: u32

text \<open>
  The monitor's own state: the console history and the trap frame \<open>tf\<close> points to
  (\<open>None\<close> for a null pointer).
\<close>

record mstate =
  console :: "cevent list"
  trapframe :: "Trapframe option"

definition cprintf :: "string \<Rightarrow> carg list \<Rightarrow> mstate \<Rightarrow> mstate" where
  "cprintf fmt args s = s\<lparr>console := console s @ [Cprintf fmt args]\<rparr>"

text \<open>
  A command handler \<open>int (*func)(int argc, char **argv, struct Trapframe *tf)\<close>: \<open>argc\<close>
  is the length of \<open>argv\<close>. The result is \<open>None\<close> when the handler never returns,
  \<open>Some (Inl e)\<close> when the kernel stops with \<open>e\<close>, and otherwise the returned status
  and the state after the call.
\<close>

type_synonym handler = "machine \<Rightarrow> string list \<Rightarrow> mstate \<Rightarrow> (fatal + int \<times> mstate) option"

subsection \<open>Basic commands\<close>

text \<open>Name and description of each entry of \<open>commands[]\<close>, in table order.\<close>

definition command_descs :: "(string \<times> string) list" where
  "command_descs =
     [(''help'', ''Display this list of commands''),
      (''kerninfo'', ''Display information about the kernel''),
      (''backtrace'', ''Display all stack frames''),
      (''step'', ''Single step when already in debugging console''),
      (''exitstep'', ''Exit single stepping'')]"

definition mon_help :: handler where
  "mon_help m argv s =
     Some (Inr (0, fold (\<lambda>(n, d). cprintf ''%s - %s\<newline>'' [A_str n, A_str d]) command_descs s))"

text \<open>
  Modelled from the spec: \<open>KERNBASE\<close> and \<open>ROUNDUP\<close> come from \<open>inc/memlayout.h\<close> and
  \<open>inc/types.h\<close>, which are not among the sources.
\<close>

definition KERNBASE :: u32 where
  "KERNBASE = 0xF0000000"

definition ROUNDUP :: "u32 \<Rightarrow> u32 \<Rightarrow> u32" where
  "ROUNDUP a n = (let a' = a + n - 1 in a' - a' mod n)"

definition mon_kerninfo :: handler where
  "mon_kerninfo m argv s =
     (let s = cprintf ''Special kernel symbols:\<newline>'' [] s;
          s = cprintf ''  _start                  %08x (phys)\<newline>'' [A_u32 (sym_start m)] s;
          s = cprintf ''  entry  %08x (virt)  %08x (phys)\<newline>''
                [A_u32 (sym_entry m), A_u32 (sym_entry m - KERNBASE)] s;
          s = cprintf ''  etext  %08x (virt)  %08x (phys)\<newline>''
                [A_u32 (sym_etext m), A_u32 (sym_etext m - KERNBASE)] s;
          s = cprintf ''  edata  %08x (virt)  %08x (phys)\<newline>''
                [A_u32 (sym_edata m), A_u32 (sym_edata m - KERNBASE)] s;
          s = cprintf ''  end    %08x (virt)  %08x (phys)\<newline>''
                [A_u32 (sym_end m), A_u32 (sym_end m - KERNBASE)] s;
          s = cprintf ''Kernel executable memory footprint: %dKB\<newline>''
                [A_int (sint (ROUNDUP (sym_end m - sym_entry m) 1024) sdiv 1024)] s
      in Some (Inr (0, s)))"

subsection \<open>Stack unwinder\<close>

text \<open>
  The \<open>while (ebp)\<close> loop of \<open>mon_backtrace\<close>, with the console history as accumulator.
  Nothing bounds the walk, so the loop is a partial function: \<open>None\<close> is a walk that
  never reaches a zero frame pointer.
\<close>

partial_function (option) backtrace_loop ::
  "machine \<Rightarrow> u32 \<Rightarrow> mstate \<Rightarrow> (fatal + mstate) option" where
  "backtrace_loop m ebp s =
     (if ebp \<noteq> 0 then
        (case debuginfo_eip m (load32 m (ebp + 4)) of
           None \<Rightarrow> Some (Inl (Panic ''Address not found in mon_backtrace''))
         | Some info \<Rightarrow>
             backtrace_loop m (load32 m ebp)
               (cprintf
                  ''  ebp %08x  eip %08x  args %08x %08x %08x %08x %08x\<newline>         %s:%d: %.*s+%d\<newline>''
                  [A_u32 ebp,
                   A_u32 (load32 m (ebp + 4)),
                   A_u32 (load32 m (ebp + 8)),
                   A_u32 (load32 m (ebp + 12)),
                   A_u32 (load32 m (ebp + 16)),
                   A_u32 (load32 m (ebp + 20)),
                   A_u32 (load32 m (ebp + 24)),
                   A_str (eip_file info),
                   A_int (eip_line info),
                   A_int (eip_fn_namelen info),
                   A_str (eip_fn_name info),
                   A_u32 (load32 m (ebp + 4) - eip_fn_addr info)] s))
      else Some (Inr s))"

declare backtrace_loop.simps [code]

definition mon_backtrace :: handler where
  "mon_backtrace m argv s =
     (case backtrace_loop m (read_ebp m) (cprintf ''Stack backtrace:\<newline>'' [] s) of
        None \<Rightarrow> None
      | Some (Inl e) \<Rightarrow> Some (Inl e)
      | Some (Inr s') \<Rightarrow> Some (Inr (0, s')))"

text \<open>
  \<open>mon_step\<close> and \<open>mon_exitstep\<close> as handlers: they read and write through \<open>tf\<close>,
  which the monitor may have been given as a null pointer.
\<close>

definition on_trapframe :: "(Trapframe \<Rightarrow> fatal + (int \<times> Trapframe)) \<Rightarrow> handler" where
  "on_trapframe f m argv s =
     (case trapframe s of
        None \<Rightarrow> Some (Inl Null_trapframe)
      | Some tf \<Rightarrow>
          (case f tf of
             Inl e \<Rightarrow> Some (Inl e)
           | Inr (r, tf') \<Rightarrow> Some (Inr (r, s\<lparr>trapframe := Some tf'\<rparr>))))"

record Command =
  name :: string
  desc :: string
  func :: handler

definition commands :: "Command list" where
  "commands =
     [\<lparr>name = ''help'', desc = ''Display this list of commands'', func = mon_help\<rparr>,
      \<lparr>name = ''kerninfo'', desc = ''Display information about the kernel'', func = mon_kerninfo\<rparr>,
      \<lparr>name = ''backtrace'', desc = ''Display all stack frames'', func = mon_backtrace\<rparr>,
      \<lparr>name = ''step'', desc = ''Single step when already in debugging console'',
       func = on_trapframe mon_step\<rparr>,
      \<lparr>name = ''exitstep'', desc = ''Exit single stepping'', func = on_trapframe mon_exitstep\<rparr>]"

subsection \<open>Command interpreter\<close>

definition WHITESPACE :: string where
  "WHITESPACE = [CHR 0x09, CHR 0x0D, CHR 0x0A, CHR '' '']"

definition MAXARGS :: nat where
  "MAXARGS = 16"

text \<open>
  The parsing loop of \<open>runcmd\<close>. The line is the list of the buffer's characters before
  its terminator, so \<open>*buf == 0\<close> is \<open>buf = []\<close>; each \<open>argv[i]\<close> is the string that
  starts at the saved pointer and ends where the loop writes a terminator over the
  first whitespace after it. \<open>None\<close> is the return from the too-many-arguments branch.
\<close>

function parse_args :: "string \<Rightarrow> string list \<Rightarrow> string list option" where
  "parse_args buf argv =
     (let buf1 = dropWhile (\<lambda>c. c \<in> set WHITESPACE) buf in
      if buf1 = [] then Some argv
      else if length argv = MAXARGS - 1 then None
      else parse_args (dropWhile (\<lambda>c. c \<notin> set WHITESPACE) buf1)
             (argv @ [takeWhile (\<lambda>c. c \<notin> set WHITESPACE) buf1]))"
  by pat_completeness auto

termination
proof (relation "measure (\<lambda>(buf, argv). length buf)", goal_cases)
  case 1
  show ?case by simp
next
  case (2 buf argv buf1)
  define rest where "rest = dropWhile (\<lambda>c. c \<notin> set WHITESPACE) buf1"
  from 2 have eq: "buf1 = dropWhile (\<lambda>c. c \<in> set WHITESPACE) buf" and ne: "buf1 \<noteq> []"
    by blast+
  from ne obtain c cs where buf1: "buf1 = c # cs"
    by (cases buf1) auto
  have "\<not> hd buf1 \<in> set WHITESPACE"
    using ne unfolding eq by (rule hd_dropWhile)
  then have "c \<notin> set WHITESPACE"
    by (simp add: buf1)
  then have "rest = dropWhile (\<lambda>c. c \<notin> set WHITESPACE) cs"
    by (simp add: rest_def buf1)
  then have "length rest \<le> length cs"
    by (simp add: length_dropWhile_le)
  moreover have "length buf1 \<le> length buf"
    by (simp add: eq length_dropWhile_le)
  ultimately have "length rest < length buf"
    by (simp add: buf1)
  then show ?case
    by (simp add: rest_def)
qed

declare parse_args.simps [simp del]

text \<open>
  \<open>runcmd\<close>: parse, then the first entry of \<open>commands\<close> whose name \<open>strcmp\<close> finds equal
  to \<open>argv[0]\<close> runs, and its status is returned as it is.
\<close>

definition runcmd :: "machine \<Rightarrow> string \<Rightarrow> mstate \<Rightarrow> (fatal + int \<times> mstate) option" where
  "runcmd m buf s =
     (case parse_args buf [] of
        None \<Rightarrow> Some (Inr (0, cprintf ''Too many arguments (max %d)\<newline>'' [A_int (int MAXARGS)] s))
      | Some argv \<Rightarrow>
          if length argv = 0 then Some (Inr (0, s))
          else
            (case find (\<lambda>c. argv ! 0 = name c) commands of
               Some c \<Rightarrow> func c m argv s
             | None \<Rightarrow> Some (Inr (0, cprintf ''Unknown command '%s'\<newline>'' [A_str (argv ! 0)] s))))"

subsection \<open>Monitor loop\<close>

text \<open>
  The loop of \<open>monitor\<close> over the answers \<open>readline\<close> gives, in order (\<open>None\<close> for a null
  line). It ends in one of three ways: the loop is left by \<open>break\<close>, with the answers
  not yet read; the kernel stops; or the answers are used up and the loop waits in
  \<open>readline\<close>.
\<close>

datatype outcome = Left_loop "string option list" mstate | Stopped fatal | Waiting mstate

definition readline :: "string \<Rightarrow> mstate \<Rightarrow> mstate" where
  "readline prompt s = s\<lparr>console := console s @ [Readline prompt]\<rparr>"

fun monitor_loop :: "machine \<Rightarrow> string option list \<Rightarrow> mstate \<Rightarrow> outcome option" where
  "monitor_loop m [] s = Some (Waiting (readline ''K> '' s))"
| "monitor_loop m (None # lines) s = monitor_loop m lines (readline ''K> '' s)"
| "monitor_loop m (Some buf # lines) s =
     (case runcmd m buf (readline ''K> '' s) of
        None \<Rightarrow> None
      | Some (Inl e) \<Rightarrow> Some (Stopped e)
      | Some (Inr (r, s')) \<Rightarrow>
          if r < 0 then Some (Left_loop lines s') else monitor_loop m lines s')"

definition monitor :: "machine \<Rightarrow> string option list \<Rightarrow> mstate \<Rightarrow> outcome option" where
  "monitor m lines s =
     (let s = cprintf ''Welcome to the JOS kernel monitor!\<newline>'' [] s;
          s = cprintf ''Type 'help' for a list of commands.\<newline>'' [] s;
          s = (case trapframe s of
                 None \<Rightarrow> s
               | Some tf \<Rightarrow> s\<lparr>console := console s @ [Print_trapframe tf]\<rparr>)
      in monitor_loop m lines s)"

subsection \<open>What the specification calls a line's tokens\<close>

text \<open>
  The specification's tokenizer, written from its words and not from the code: "the
  input split on whitespace", every whitespace character being a separator and empty
  pieces not being tokens.
\<close>

fun split_ws :: "string \<Rightarrow> string list" where
  "split_ws [] = [[]]"
| "split_ws (c # cs) =
     (if c \<in> set WHITESPACE then [] # split_ws cs
      else (case split_ws cs of [] \<Rightarrow> [[c]] | w # ws \<Rightarrow> (c # w) # ws))"

definition spec_tokens :: "string \<Rightarrow> string list" where
  "spec_tokens line = filter (\<lambda>w. w \<noteq> []) (split_ws line)"

text \<open>
  The specification's frame-pointer chain, written from its words: starting at the
  frame pointer \<open>ebp\<close>, the frames \<open>fps\<close> from the innermost outwards, each linked to the
  next by the word stored at the frame pointer itself, the last link being zero.
\<close>

fun fp_chain :: "machine \<Rightarrow> u32 \<Rightarrow> u32 list \<Rightarrow> bool" where
  "fp_chain m ebp [] = (ebp = 0)"
| "fp_chain m ebp (fp # fps) = (ebp \<noteq> 0 \<and> fp = ebp \<and> fp_chain m (load32 m ebp) fps)"

subsection \<open>A machine and a debug session to run the monitor on\<close>

text \<open>
  A stack of two frames at \<open>0x1000\<close> and \<open>0x2000\<close>, both return addresses known to the
  symbol resolver, and a program stopped by a debug trap.
\<close>

definition machine0 :: machine where
  "machine0 =
     \<lparr>load32 = (\<lambda>a. case map_of
          [(0x1000, 0x2000), (0x1004, 0xF0100040), (0x1008, 5), (0x100C, 6), (0x1010, 7),
           (0x1014, 8), (0x1018, 9),
           (0x2000, 0), (0x2004, 0xF0100080), (0x2008, 1)] a of None \<Rightarrow> 0 | Some w \<Rightarrow> w),
      read_ebp = 0x1000,
      debuginfo_eip = map_of
          [(0xF0100040, \<lparr>eip_file = ''kern/init.c'', eip_line = 24, eip_fn_name = ''test_backtrace'',
              eip_fn_namelen = 14, eip_fn_addr = 0xF0100000, eip_fn_narg = 1\<rparr>),
           (0xF0100080, \<lparr>eip_file = ''kern/entry.S'', eip_line = 83, eip_fn_name = ''<unknown>'',
              eip_fn_namelen = 9, eip_fn_addr = 0xF0100080, eip_fn_narg = 0\<rparr>)],
      sym_start = 0x10000C, sym_entry = 0xF010000C, sym_etext = 0xF0101A75,
      sym_edata = 0xF0112300, sym_end = 0xF0112960\<rparr>"

definition session0 :: mstate where
  "session0 =
     \<lparr>console = [],
      trapframe = Some \<lparr>tf_trapno = 1, tf_eip = 0x800020, tf_eflags = 0x202, tf_ebp = 0xEEBFDF00\<rparr>\<rparr>"

section \<open>File client (lib/file.c)\<close>

subsection \<open>Constants and records of the protocol\<close>

text \<open>
  Modelled from the spec: \<open>inc/mmu.h\<close>, \<open>inc/fs.h\<close>, \<open>inc/error.h\<close> and \<open>inc/fd.h\<close> are
  not among the sources. They give the page size, the longest path, the error code
  \<open>E_BAD_PATH\<close>, the request tags, the members of \<open>union Fsipc\<close>, \<open>struct Fd\<close> and
  \<open>struct Stat\<close>. The target is the 32-bit x86, where \<open>int\<close> and \<open>size_t\<close> take four
  bytes each. A signed \<open>int\<close> is a 32-bit word read with \<open>sint\<close>.
\<close>

definition PGSIZE :: u32 where
  "PGSIZE = 4096"

definition MAXPATHLEN :: nat where
  "MAXPATHLEN = 1024"

definition E_BAD_PATH :: u32 where
  "E_BAD_PATH = 12"

definition sizeof_int :: u32 where
  "sizeof_int = 4"

definition sizeof_size_t :: u32 where
  "sizeof_size_t = 4"

datatype fsreq =
  FSREQ_OPEN | FSREQ_SET_SIZE | FSREQ_READ | FSREQ_WRITE | FSREQ_STAT | FSREQ_FLUSH
  | FSREQ_REMOVE | FSREQ_SYNC

text \<open>
  \<open>union Fsipc\<close>, one field for each field of each member the client touches. In C the
  members lie over one another in a single page; here they are kept apart. The client
  writes a request into one member and reads the reply from one member, and what the
  server leaves in the page is a parameter of the model (\<open>fs_server\<close> below). The
  record is exact for the requests the client writes and for the paths that return
  before the reply is read. Where the reply is read (\<open>devfile_read\<close> and \<open>devfile_stat\<close>
  after a result that is not negative), it is exact only for a server that writes the
  reply member: in C a page the server left alone would show the bytes of the request
  through the reply member, which the record does not.
\<close>

record Fsipc =
  open_req_path :: string
  open_req_omode :: u32
  set_size_req_fileid :: u32
  set_size_req_size :: u32
  read_req_fileid :: u32
  read_req_n :: u32
  readRet_ret_buf :: "u8 list"
  write_req_fileid :: u32
  write_req_n :: u32
  write_req_buf :: "u8 list"
  stat_req_fileid :: u32
  statRet_ret_name :: string
  statRet_ret_size :: u32
  statRet_ret_isdir :: u32
  flush_req_fileid :: u32

record Fd =
  fd_dev_id :: u32
  fd_offset :: u32
  fd_omode :: u32
  fd_file_id :: u32

record Stat =
  st_name :: string
  st_size :: u32
  st_isdir :: u32

text \<open>
  What the client does to the world outside it, in order: console output, the lookup
  of the server, a page sent to an environment under a request tag, the wait for the
  reply (with the address where a reply page is to be mapped, if any), a call of the
  descriptor allocator, and a call of \<open>fd_close\<close> with its two arguments.
\<close>

datatype fevent =
  F_cprintf string "carg list"
  | F_ipc_find_env
  | F_ipc_send u32 fsreq Fsipc
  | F_ipc_recv "u32 option"
  | F_fd_alloc
  | F_fd_close u32 u32

text \<open>
  The services the client calls and does not implement: the environment id that
  \<open>ipc_find_env(ENV_TYPE_FS)\<close> finds; the server, which for a request tag and the page
  it is sent gives the value \<open>ipc_recv\<close> returns and the page as the server leaves it;
  what \<open>fd_alloc\<close> returns and the descriptor address it stores; \<open>fd2num\<close>; and
  \<open>thisenv->env_id\<close>.
\<close>

record fs_ext =
  ipc_find_env_fs :: u32
  fs_server :: "fsreq \<Rightarrow> Fsipc \<Rightarrow> u32 \<times> Fsipc"
  fd_alloc :: "u32 \<times> u32"
  fd2num :: "u32 \<Rightarrow> u32"
  thisenv_id :: u32

text \<open>
  The client's own state: the shared request page \<open>fsipcbuf\<close>, the cached server id
  \<open>fsenv\<close> (a static local of \<open>fsipc\<close>), and the history of calls to the outside.
\<close>

record fclient =
  fsipcbuf :: Fsipc
  fsenv :: u32
  ftrace :: "fevent list"

definition emit :: "fevent \<Rightarrow> fclient \<Rightarrow> fclient" where
  "emit e c = c\<lparr>ftrace := ftrace c @ [e]\<rparr>"

text \<open>
  \<open>memmove(dst, src, n)\<close> and \<open>memcpy(dst, src, n)\<close> on byte arrays that hold at least
  \<open>n\<close> bytes each: the first \<open>n\<close> bytes of \<open>dst\<close> become those of \<open>src\<close>. On shorter
  lists the equation below is not what C does (C reads and writes past the arrays).
\<close>

definition memmove :: "u8 list \<Rightarrow> u8 list \<Rightarrow> nat \<Rightarrow> u8 list" where
  "memmove dst src n = take n src @ drop n dst"

subsection \<open>Request gateway\<close>

text \<open>
  \<open>fsipc\<close>. The constant \<open>debug\<close> is 0, so the tracing branch never runs and is left out.
\<close>

definition fsipc :: "fs_ext \<Rightarrow> fsreq \<Rightarrow> u32 option \<Rightarrow> fclient \<Rightarrow> u32 \<times> fclient" where
  "fsipc x type dstva c =
     (let c = (if fsenv c = 0
               then (emit F_ipc_find_env c)\<lparr>fsenv := ipc_find_env_fs x\<rparr>
               else c);
          c = emit (F_ipc_send (fsenv c) type (fsipcbuf c)) c;
          (ret, page) = fs_server x type (fsipcbuf c);
          c = emit (F_ipc_recv dstva) (c\<lparr>fsipcbuf := page\<rparr>)
      in (ret, c))"

subsection \<open>File operations\<close>

text \<open>
  \<open>open\<close> of the source, under the name \<open>open_file\<close> (\<open>open\<close> is a keyword of the
  theory language). The result is the returned \<open>int\<close> and the client after the call.
\<close>

definition open_file :: "fs_ext \<Rightarrow> string \<Rightarrow> u32 \<Rightarrow> fclient \<Rightarrow> u32 \<times> fclient" where
  "open_file x path mode c =
     (let c = emit (F_cprintf ''[open] path: %s\<newline>'' [A_str path]) c in
      if length path \<ge> MAXPATHLEN then (- E_BAD_PATH, c)
      else
        let (r, fd) = fd_alloc x;
            c = emit F_fd_alloc c
        in if sint r < 0 then (r, c)
           else
             let c = c\<lparr>fsipcbuf := (fsipcbuf c)\<lparr>open_req_path := path\<rparr>\<rparr>;
                 c = emit (F_cprintf ''[%08x][open] new path in fsipcbuf: %s\<newline>''
                             [A_u32 (thisenv_id x), A_str (open_req_path (fsipcbuf c))]) c;
                 c = c\<lparr>fsipcbuf := (fsipcbuf c)\<lparr>open_req_omode := mode\<rparr>\<rparr>;
                 (r, c) = fsipc x FSREQ_OPEN (Some fd) c
             in if sint r < 0 then (r, emit (F_fd_close fd 0) c)
                else (fd2num x fd, c))"

definition devfile_flush :: "fs_ext \<Rightarrow> Fd \<Rightarrow> fclient \<Rightarrow> u32 \<times> fclient" where
  "devfile_flush x fd c =
     (let c = c\<lparr>fsipcbuf := (fsipcbuf c)\<lparr>flush_req_fileid := fd_file_id fd\<rparr>\<rparr>
      in fsipc x FSREQ_FLUSH None c)"

text \<open>
  \<open>devfile_read\<close> with the caller's buffer \<open>buf\<close> passed in and handed back. In
  \<open>assert(r <= n)\<close> the \<open>int\<close> is converted to \<open>size_t\<close>, an unsigned comparison; in
  \<open>assert(r <= PGSIZE)\<close> both sides are \<open>int\<close>. A failed assertion is a panic.
\<close>

definition devfile_read ::
  "fs_ext \<Rightarrow> Fd \<Rightarrow> u8 list \<Rightarrow> u32 \<Rightarrow> fclient \<Rightarrow> fatal + (u32 \<times> u8 list \<times> fclient)" where
  "devfile_read x fd buf n c =
     (let c = c\<lparr>fsipcbuf := (fsipcbuf c)\<lparr>read_req_fileid := fd_file_id fd\<rparr>\<rparr>;
          c = c\<lparr>fsipcbuf := (fsipcbuf c)\<lparr>read_req_n := n\<rparr>\<rparr>;
          (r, c) = fsipc x FSREQ_READ None c
      in if sint r < 0 then Inr (r, buf, c)
         else if \<not> r \<le> n then Inl (Panic ''assertion failed: r <= n'')
         else if \<not> sint r \<le> sint PGSIZE then Inl (Panic ''assertion failed: r <= PGSIZE'')
         else Inr (r, memmove buf (readRet_ret_buf (fsipcbuf c)) (unat r), c))"

text \<open>
  \<open>devfile_write\<close>. \<open>max_buf_size\<close> is an \<open>int\<close>; in \<open>n > max_buf_size\<close> it is converted
  to \<open>size_t\<close>, an unsigned comparison.
\<close>

definition max_buf_size :: u32 where
  "max_buf_size = PGSIZE - (sizeof_int + sizeof_size_t)"

definition devfile_write ::
  "fs_ext \<Rightarrow> Fd \<Rightarrow> u8 list \<Rightarrow> u32 \<Rightarrow> fclient \<Rightarrow> fatal + (u32 \<times> fclient)" where
  "devfile_write x fd buf n c =
     (let c = c\<lparr>fsipcbuf := (fsipcbuf c)\<lparr>write_req_fileid := fd_file_id fd\<rparr>\<rparr>;
          c = c\<lparr>fsipcbuf := (fsipcbuf c)
                \<lparr>write_req_n := (if n > max_buf_size then max_buf_size else n)\<rparr>\<rparr>;
          c = c\<lparr>fsipcbuf := (fsipcbuf c)
                \<lparr>write_req_buf :=
                   memmove (write_req_buf (fsipcbuf c)) buf (unat (write_req_n (fsipcbuf c)))\<rparr>\<rparr>;
          (r, c) = fsipc x FSREQ_WRITE None c
      in if sint r < 0 then Inr (r, c)
         else if \<not> r \<le> n then Inl (Panic ''assertion failed: r <= n'')
         else if \<not> sint r \<le> sint PGSIZE then Inl (Panic ''assertion failed: r <= PGSIZE'')
         else Inr (r, c))"

text \<open>\<open>devfile_stat\<close> with the caller's record \<open>st\<close> passed in and handed back.\<close>

definition devfile_stat ::
  "fs_ext \<Rightarrow> Fd \<Rightarrow> 'a Stat_scheme \<Rightarrow> fclient \<Rightarrow> u32 \<times> 'a Stat_scheme \<times> fclient" where
  "devfile_stat x fd st c =
     (let c = c\<lparr>fsipcbuf := (fsipcbuf c)\<lparr>stat_req_fileid := fd_file_id fd\<rparr>\<rparr>;
          (r, c) = fsipc x FSREQ_STAT None c
      in if sint r < 0 then (r, st, c)
         else
           let st = st\<lparr>st_name := statRet_ret_name (fsipcbuf c)\<rparr>;
               st = st\<lparr>st_size := statRet_ret_size (fsipcbuf c)\<rparr>;
               st = st\<lparr>st_isdir := statRet_ret_isdir (fsipcbuf c)\<rparr>
           in (0, st, c))"

definition devfile_trunc :: "fs_ext \<Rightarrow> Fd \<Rightarrow> u32 \<Rightarrow> fclient \<Rightarrow> u32 \<times> fclient" where
  "devfile_trunc x fd newsize c =
     (let c = c\<lparr>fsipcbuf := (fsipcbuf c)\<lparr>set_size_req_fileid := fd_file_id fd\<rparr>\<rparr>;
          c = c\<lparr>fsipcbuf := (fsipcbuf c)\<lparr>set_size_req_size := newsize\<rparr>\<rparr>
      in fsipc x FSREQ_SET_SIZE None c)"

definition sync :: "fs_ext \<Rightarrow> fclient \<Rightarrow> u32 \<times> fclient" where
  "sync x c = fsipc x FSREQ_SYNC None c"

text \<open>The requests a history holds: tag and page of each \<open>ipc_send\<close>, in order.\<close>

fun requests_sent :: "fevent list \<Rightarrow> (fsreq \<times> Fsipc) list" where
  "requests_sent [] = []"
| "requests_sent (F_ipc_send env type page # es) = (type, page) # requests_sent es"
| "requests_sent (e # es) = requests_sent es"

subsection \<open>A server and a client to run the file operations on\<close>

text \<open>
  A server that knows the file \<open>/motd\<close> and the file id 7, and answers every other
  path with \<open>-E_NOT_FOUND\<close> and every other id with \<open>-E_INVAL\<close>; a client that has not
  yet looked the server up.
\<close>

definition server0 :: "fsreq \<Rightarrow> Fsipc \<Rightarrow> u32 \<times> Fsipc" where
  "server0 type page =
     (case type of
        FSREQ_OPEN \<Rightarrow> (if open_req_path page = ''/motd'' then (0, page) else (- 11, page))
      | FSREQ_READ \<Rightarrow>
          (if read_req_fileid page = 7 then (2, page\<lparr>readRet_ret_buf := [104, 105]\<rparr>)
           else (- 3, page))
      | FSREQ_WRITE \<Rightarrow>
          (if write_req_fileid page = 7 then (write_req_n page, page) else (- 3, page))
      | FSREQ_STAT \<Rightarrow>
          (if stat_req_fileid page = 7
           then (0, page\<lparr>statRet_ret_name := ''motd'', statRet_ret_size := 2,
                        statRet_ret_isdir := 0\<rparr>)
           else (- 3, page))
      | _ \<Rightarrow> (0, page))"

definition ext0 :: fs_ext where
  "ext0 = \<lparr>ipc_find_env_fs = 0x1001, fs_server = server0, fd_alloc = (0, 0xD0000000),
           fd2num = (\<lambda>fd. (fd - 0xD0000000) div 4096), thisenv_id = 0x1002\<rparr>"

definition page0 :: Fsipc where
  "page0 = \<lparr>open_req_path = [], open_req_omode = 0, set_size_req_fileid = 0, set_size_req_size = 0,
            read_req_fileid = 0, read_req_n = 0, readRet_ret_buf = [],
            write_req_fileid = 0, write_req_n = 0, write_req_buf = [],
            stat_req_fileid = 0, statRet_ret_name = [], statRet_ret_size = 0,
            statRet_ret_isdir = 0, flush_req_fileid = 0\<rparr>"

definition client0 :: fclient where
  "client0 = \<lparr>fsipcbuf = page0, fsenv = 0, ftrace = []\<rparr>"

definition fd7 :: Fd where
  "fd7 = \<lparr>fd_dev_id = 102, fd_offset = 0, fd_omode = 0, fd_file_id = 7\<rparr>"

definition fd8 :: Fd where
  "fd8 = \<lparr>fd_dev_id = 102, fd_offset = 0, fd_omode = 0, fd_file_id = 8\<rparr>"

section \<open>Properties of the kernel monitor\<close>

subsection \<open>Debug-step controller\<close>

lemma bit_0x100: "bit (0x100 :: u32) i = (i = 8)"
proof -
  have "(0x100 :: u32) = 2 ^ 8" by simp
  then show ?thesis by (simp only: bit_exp_iff) auto
qed

lemma bit_0x10000: "bit (0x10000 :: u32) i = (i = 16)"
proof -
  have "(0x10000 :: u32) = 2 ^ 16" by simp
  then show ?thesis by (simp only: bit_exp_iff) auto
qed

lemma step_bits:
  fixes w :: u32
  shows "bit ((w OR 0x100) AND NOT 0x10000) i =
           (if i = 8 then True else if i = 16 then False else bit w i)"
  unfolding bit_and_iff bit_or_iff bit_not_iff bit_0x100 bit_0x10000
  by (auto dest: bit_imp_le_length)

lemma exitstep_bits:
  fixes w :: u32
  shows "bit ((w OR 0x10000) AND NOT 0x100) i =
           (if i = 16 then True else if i = 8 then False else bit w i)"
  unfolding bit_and_iff bit_or_iff bit_not_iff bit_0x100 bit_0x10000
  by (auto dest: bit_imp_le_length)

lemma trap_flag_test: "(w :: u32) AND 0x100 = 0 \<longleftrightarrow> \<not> bit w 8"
proof
  assume "w AND 0x100 = 0"
  then have "\<not> bit (w AND 0x100) 8" by simp
  then show "\<not> bit w 8" unfolding bit_and_iff bit_0x100 by simp
next
  assume "\<not> bit w 8"
  then have "\<not> bit (w AND 0x100) i" for i unfolding bit_and_iff bit_0x100 by auto
  then show "w AND 0x100 = 0" by (intro bit_eqI) simp
qed

lemma mon_step_returns:
  "mon_step tf =
     (if tf_trapno tf \<noteq> T_DEBUG \<and> tf_trapno tf \<noteq> T_BRKPT
      then Inl (Panic ''Not already in debugging mode when calling step\<newline>'')
      else Inr (- 2, tf\<lparr>tf_eflags := (tf_eflags tf OR 0x100) AND NOT 0x10000\<rparr>))"
  unfolding mon_step_def Let_def by (rule refl)

lemma mon_exitstep_returns:
  "mon_exitstep tf =
     (if tf_trapno tf \<noteq> T_DEBUG \<and> tf_trapno tf = T_BRKPT
      then Inl (Panic ''Not already in debugging mode when calling exitstep\<newline>'')
      else if \<not> bit (tf_eflags tf) 8
      then Inl (Panic ''Not in single stepping mode when calling exitstep\<newline>'')
      else Inr (- 2, tf\<lparr>tf_eflags := (tf_eflags tf OR 0x10000) AND NOT 0x100\<rparr>))"
  unfolding mon_exitstep_def Let_def trap_flag_test by (rule refl)

lemma trap_causes_differ: "T_DEBUG \<noteq> T_BRKPT"
  by (simp add: T_DEBUG_def T_BRKPT_def)

text \<open>
  What the two operations do to the frame, as they are written. Whenever \<open>mon_step\<close>
  returns, the trap flag (bit 8, \<open>0x100\<close>) is set and the resume flag (bit 16,
  \<open>0x10000\<close>) is clear; whenever \<open>mon_exitstep\<close> returns, the trap flag is clear and the
  resume flag set; in both, every other bit of the flags register and every other field
  of the frame is as before. \<open>mon_step\<close> returns on every frame stopped by a debug or
  breakpoint trap; \<open>mon_exitstep\<close> returns on the frames that pass the two tests it
  makes, and these leave out every frame stopped by a breakpoint trap.
\<close>

lemma step_controller_effect:
  fixes tf :: "'a Trapframe_scheme"
  shows
    "(\<forall>r tf'. mon_step tf = Inr (r, tf') \<longrightarrow>
        bit (tf_eflags tf') 8 \<and> \<not> bit (tf_eflags tf') 16 \<and>
        (\<forall>i. i \<noteq> 8 \<and> i \<noteq> 16 \<longrightarrow> bit (tf_eflags tf') i = bit (tf_eflags tf) i) \<and>
        tf' = tf\<lparr>tf_eflags := tf_eflags tf'\<rparr>) \<and>
     (\<forall>r tf'. mon_exitstep tf = Inr (r, tf') \<longrightarrow>
        \<not> bit (tf_eflags tf') 8 \<and> bit (tf_eflags tf') 16 \<and>
        (\<forall>i. i \<noteq> 8 \<and> i \<noteq> 16 \<longrightarrow> bit (tf_eflags tf') i = bit (tf_eflags tf) i) \<and>
        tf' = tf\<lparr>tf_eflags := tf_eflags tf'\<rparr>) \<and>
     (tf_trapno tf = T_DEBUG \<or> tf_trapno tf = T_BRKPT \<longrightarrow> (\<exists>tf'. mon_step tf = Inr (- 2, tf'))) \<and>
     (\<not> (tf_trapno tf \<noteq> T_DEBUG \<and> tf_trapno tf = T_BRKPT) \<and> tf_eflags tf AND 0x100 \<noteq> 0 \<longrightarrow>
        (\<exists>tf'. mon_exitstep tf = Inr (- 2, tf')))"
proof (intro conjI allI impI)
  fix r tf'
  assume "mon_step tf = Inr (r, tf')"
  then have tf': "tf' = tf\<lparr>tf_eflags := (tf_eflags tf OR 0x100) AND NOT 0x10000\<rparr>"
    unfolding mon_step_returns by (simp split: if_splits)
  have ef: "bit (tf_eflags tf') i = (if i = 8 then True else if i = 16 then False else bit (tf_eflags tf) i)" for i
    using step_bits [of "tf_eflags tf" i] unfolding tf' by simp
  show "bit (tf_eflags tf') 8" by (simp add: ef)
  show "\<not> bit (tf_eflags tf') 16" by (simp add: ef)
  show "tf' = tf\<lparr>tf_eflags := tf_eflags tf'\<rparr>" unfolding tf' by simp
  fix i :: nat
  assume "i \<noteq> 8 \<and> i \<noteq> 16"
  then show "bit (tf_eflags tf') i = bit (tf_eflags tf) i"
    by (simp add: ef)
next
  fix r tf'
  assume "mon_exitstep tf = Inr (r, tf')"
  then have tf': "tf' = tf\<lparr>tf_eflags := (tf_eflags tf OR 0x10000) AND NOT 0x100\<rparr>"
    unfolding mon_exitstep_returns by (simp split: if_splits)
  have ef: "bit (tf_eflags tf') i = (if i = 16 then True else if i = 8 then False else bit (tf_eflags tf) i)" for i
    using exitstep_bits [of "tf_eflags tf" i] unfolding tf' by simp
  show "\<not> bit (tf_eflags tf') 8" by (simp add: ef)
  show "bit (tf_eflags tf') 16" by (simp add: ef)
  show "tf' = tf\<lparr>tf_eflags := tf_eflags tf'\<rparr>" unfolding tf' by simp
  fix i :: nat
  assume "i \<noteq> 8 \<and> i \<noteq> 16"
  then show "bit (tf_eflags tf') i = bit (tf_eflags tf) i"
    by (simp add: ef)
next
  assume "tf_trapno tf = T_DEBUG \<or> tf_trapno tf = T_BRKPT"
  then show "\<exists>tf'. mon_step tf = Inr (- 2, tf')"
    unfolding mon_step_returns by auto
next
  assume "\<not> (tf_trapno tf \<noteq> T_DEBUG \<and> tf_trapno tf = T_BRKPT) \<and> tf_eflags tf AND 0x100 \<noteq> 0"
  then show "\<exists>tf'. mon_exitstep tf = Inr (- 2, tf')"
    unfolding mon_exitstep_returns trap_flag_test by auto
qed

text \<open>
  C7. The claim is that on every frame stopped by a debug or breakpoint trap whose trap
  flag is set, \<open>mon_exitstep\<close> clears the trap flag and sets the resume flag. On the
  frame below, stopped by a breakpoint trap with the trap flag set (\<open>0x302\<close>),
  \<open>mon_step\<close> does its part and \<open>mon_exitstep\<close> panics instead: nothing is cleared or set.
\<close>

theorem mon_exitstep_breakpoint_frame_untouched:
  "tf_trapno \<lparr>tf_trapno = 3, tf_eip = 0x800020, tf_eflags = 0x302, tf_ebp = 0\<rparr> = T_BRKPT \<and>
   (0x302 :: u32) AND 0x100 = 0x100 \<and>
   mon_step \<lparr>tf_trapno = 3, tf_eip = 0x800020, tf_eflags = 0x302, tf_ebp = 0\<rparr> =
     Inr (- 2, \<lparr>tf_trapno = 3, tf_eip = 0x800020, tf_eflags = 0x302, tf_ebp = 0\<rparr>) \<and>
   mon_exitstep \<lparr>tf_trapno = 3, tf_eip = 0x800020, tf_eflags = 0x302, tf_ebp = 0\<rparr> =
     Inl (Panic ''Not already in debugging mode when calling exitstep\<newline>'')"
  by (simp add: mon_step_def mon_exitstep_def T_DEBUG_def T_BRKPT_def)

text \<open>
  C2. The two operations do not share one test of the trap cause. On a frame stopped
  by a breakpoint trap with the trap flag set, \<open>mon_step\<close> returns and \<open>mon_exitstep\<close>
  panics on its trap-cause test; on a frame stopped by a page fault (cause 14), which is
  neither a debug nor a breakpoint trap, \<open>mon_step\<close> panics and \<open>mon_exitstep\<close> returns.
\<close>

theorem mon_exitstep_trap_cause_test:
  "mon_step \<lparr>tf_trapno = T_BRKPT, tf_eip = 0x800020, tf_eflags = 0x302, tf_ebp = 0\<rparr> =
     Inr (- 2, \<lparr>tf_trapno = T_BRKPT, tf_eip = 0x800020, tf_eflags = 0x302, tf_ebp = 0\<rparr>) \<and>
   mon_exitstep \<lparr>tf_trapno = T_BRKPT, tf_eip = 0x800020, tf_eflags = 0x302, tf_ebp = 0\<rparr> =
     Inl (Panic ''Not already in debugging mode when calling exitstep\<newline>'') \<and>
   mon_step \<lparr>tf_trapno = 14, tf_eip = 0x800020, tf_eflags = 0x302, tf_ebp = 0\<rparr> =
     Inl (Panic ''Not already in debugging mode when calling step\<newline>'') \<and>
   mon_exitstep \<lparr>tf_trapno = 14, tf_eip = 0x800020, tf_eflags = 0x302, tf_ebp = 0\<rparr> =
     Inr (- 2, \<lparr>tf_trapno = 14, tf_eip = 0x800020, tf_eflags = 0x10202, tf_ebp = 0\<rparr>)"
  by (simp add: mon_step_def mon_exitstep_def T_DEBUG_def T_BRKPT_def)

text \<open>
  C8, as stated, fails: on a frame stopped by a debug trap whose flags register is
  \<open>0x202\<close> (trap flag and resume flag both clear), \<open>mon_step\<close> and then \<open>mon_exitstep\<close>
  leave \<open>0x10202\<close>: the resume flag is set and not restored.
\<close>

theorem step_then_exitstep_sets_resume_flag:
  "mon_step \<lparr>tf_trapno = T_DEBUG, tf_eip = 0x800020, tf_eflags = 0x202, tf_ebp = 0\<rparr> =
     Inr (- 2, \<lparr>tf_trapno = T_DEBUG, tf_eip = 0x800020, tf_eflags = 0x302, tf_ebp = 0\<rparr>) \<and>
   mon_exitstep \<lparr>tf_trapno = T_DEBUG, tf_eip = 0x800020, tf_eflags = 0x302, tf_ebp = 0\<rparr> =
     Inr (- 2, \<lparr>tf_trapno = T_DEBUG, tf_eip = 0x800020, tf_eflags = 0x10202, tf_ebp = 0\<rparr>) \<and>
   \<not> bit (0x202 :: u32) 16 \<and> bit (0x10202 :: u32) 16"
  by (simp add: mon_step_def mon_exitstep_def T_DEBUG_def T_BRKPT_def)

text \<open>
  C8, amended. On a frame stopped by a debug trap, \<open>mon_step\<close> and then \<open>mon_exitstep\<close>
  both return, and leave the trap flag clear and the resume flag set whatever the two
  bits were before, every other bit of the flags register and every other field of the
  frame being as before. \<open>mon_exitstep\<close> on a frame whose trap flag is clear panics,
  whatever the trap cause.
\<close>

theorem step_then_exitstep:
  fixes tf :: "'a Trapframe_scheme"
  shows
    "(tf_trapno tf = T_DEBUG \<longrightarrow>
        (\<exists>tf1 tf2. mon_step tf = Inr (- 2, tf1) \<and> mon_exitstep tf1 = Inr (- 2, tf2) \<and>
           \<not> bit (tf_eflags tf2) 8 \<and> bit (tf_eflags tf2) 16 \<and>
           (\<forall>i. i \<noteq> 8 \<and> i \<noteq> 16 \<longrightarrow> bit (tf_eflags tf2) i = bit (tf_eflags tf) i) \<and>
           tf2 = tf\<lparr>tf_eflags := tf_eflags tf2\<rparr>)) \<and>
     (\<not> bit (tf_eflags tf) 8 \<longrightarrow> (\<exists>msg. mon_exitstep tf = Inl (Panic msg)))"
proof (intro conjI impI)
  assume dbg: "tf_trapno tf = T_DEBUG"
  define tf1 where "tf1 = tf\<lparr>tf_eflags := (tf_eflags tf OR 0x100) AND NOT 0x10000\<rparr>"
  define tf2 where "tf2 = tf1\<lparr>tf_eflags := (tf_eflags tf1 OR 0x10000) AND NOT 0x100\<rparr>"
  have s1: "mon_step tf = Inr (- 2, tf1)"
    unfolding mon_step_returns tf1_def using dbg by simp
  have b1: "bit (tf_eflags tf1) i = (if i = 8 then True else if i = 16 then False else bit (tf_eflags tf) i)" for i
    using step_bits [of "tf_eflags tf" i] unfolding tf1_def by simp
  have "tf_trapno tf1 = T_DEBUG"
    using dbg by (simp add: tf1_def)
  moreover have "bit (tf_eflags tf1) 8"
    by (simp add: b1)
  ultimately have s2: "mon_exitstep tf1 = Inr (- 2, tf2)"
    unfolding mon_exitstep_returns [of tf1] tf2_def by simp
  have b2: "bit (tf_eflags tf2) i = (if i = 16 then True else if i = 8 then False else bit (tf_eflags tf1) i)" for i
    using exitstep_bits [of "tf_eflags tf1" i] unfolding tf2_def by simp
  have "tf2 = tf\<lparr>tf_eflags := tf_eflags tf2\<rparr>"
    by (simp add: tf2_def tf1_def)
  moreover have "\<forall>i. i \<noteq> 8 \<and> i \<noteq> 16 \<longrightarrow> bit (tf_eflags tf2) i = bit (tf_eflags tf) i"
    by (simp add: b1 b2)
  moreover have "\<not> bit (tf_eflags tf2) 8" "bit (tf_eflags tf2) 16"
    by (simp_all add: b2)
  ultimately show "\<exists>tf1 tf2. mon_step tf = Inr (- 2, tf1) \<and> mon_exitstep tf1 = Inr (- 2, tf2) \<and>
           \<not> bit (tf_eflags tf2) 8 \<and> bit (tf_eflags tf2) 16 \<and>
           (\<forall>i. i \<noteq> 8 \<and> i \<noteq> 16 \<longrightarrow> bit (tf_eflags tf2) i = bit (tf_eflags tf) i) \<and>
           tf2 = tf\<lparr>tf_eflags := tf_eflags tf2\<rparr>"
    using s1 s2 by blast
next
  assume "\<not> bit (tf_eflags tf) 8"
  then show "\<exists>msg. mon_exitstep tf = Inl (Panic msg)"
    unfolding mon_exitstep_returns by simp
qed

theorem step_then_exitstep_witness:
  "(\<exists>tf1 tf2. mon_step \<lparr>tf_trapno = 1, tf_eip = 0x800020, tf_eflags = 0x202, tf_ebp = 0\<rparr> = Inr (- 2, tf1) \<and>
      mon_exitstep tf1 = Inr (- 2, tf2) \<and> \<not> bit (tf_eflags tf2) 8 \<and> bit (tf_eflags tf2) 16) \<and>
   (\<exists>msg. mon_exitstep \<lparr>tf_trapno = 1, tf_eip = 0x800020, tf_eflags = 0x202, tf_ebp = 0\<rparr> = Inl (Panic msg))"
proof -
  have dbg: "tf_trapno \<lparr>tf_trapno = 1, tf_eip = 0x800020, tf_eflags = 0x202, tf_ebp = 0\<rparr> = T_DEBUG"
    by (simp add: T_DEBUG_def)
  have "(0x202 :: u32) AND 0x100 = 0"
    by simp
  then have tf: "\<not> bit (tf_eflags \<lparr>tf_trapno = 1, tf_eip = 0x800020, tf_eflags = 0x202, tf_ebp = 0\<rparr>) 8"
    by (simp add: trap_flag_test [symmetric])
  from step_then_exitstep [of "\<lparr>tf_trapno = 1, tf_eip = 0x800020, tf_eflags = 0x202, tf_ebp = 0\<rparr>"] dbg tf
  show ?thesis by blast
qed

subsection \<open>Command interpreter\<close>

text \<open>
  \<open>mon_help\<close> walks the names and descriptions of the very table \<open>runcmd\<close> searches.
\<close>

lemma commands_command_descs: "map (\<lambda>c. (name c, desc c)) commands = command_descs"
  by (simp add: commands_def command_descs_def)

lemma split_ws_shape:
  "split_ws xs =
     takeWhile (\<lambda>c. c \<notin> set WHITESPACE) xs #
       (case dropWhile (\<lambda>c. c \<notin> set WHITESPACE) xs of [] \<Rightarrow> [] | c # r \<Rightarrow> split_ws r)"
  by (induction xs) (auto split: list.splits)

lemma spec_tokens_Nil: "spec_tokens [] = []"
  by (simp add: spec_tokens_def)

lemma spec_tokens_ws: "c \<in> set WHITESPACE \<Longrightarrow> spec_tokens (c # cs) = spec_tokens cs"
  by (simp add: spec_tokens_def)

lemma spec_tokens_dropWhile:
  "spec_tokens (dropWhile (\<lambda>c. c \<in> set WHITESPACE) xs) = spec_tokens xs"
  by (induction xs) (auto simp: spec_tokens_ws)

lemma spec_tokens_word:
  assumes "c \<notin> set WHITESPACE"
  shows "spec_tokens (c # cs) =
           takeWhile (\<lambda>c. c \<notin> set WHITESPACE) (c # cs) #
             spec_tokens (dropWhile (\<lambda>c. c \<notin> set WHITESPACE) (c # cs))"
proof -
  let ?rest = "dropWhile (\<lambda>c. c \<notin> set WHITESPACE) (c # cs)"
  have "spec_tokens (c # cs) = filter (\<lambda>w. w \<noteq> []) (split_ws (c # cs))"
    by (simp add: spec_tokens_def)
  also have "split_ws (c # cs) =
      takeWhile (\<lambda>c. c \<notin> set WHITESPACE) (c # cs) # (case ?rest of [] \<Rightarrow> [] | c # r \<Rightarrow> split_ws r)"
    by (rule split_ws_shape)
  finally have *: "spec_tokens (c # cs) =
      takeWhile (\<lambda>c. c \<notin> set WHITESPACE) (c # cs) #
        filter (\<lambda>w. w \<noteq> []) (case ?rest of [] \<Rightarrow> [] | c # r \<Rightarrow> split_ws r)"
    using assms by simp
  show ?thesis
  proof (cases ?rest)
    case Nil
    then show ?thesis using * by (simp add: spec_tokens_Nil)
  next
    case (Cons d r)
    then have "d \<in> set WHITESPACE"
      using hd_dropWhile [of "\<lambda>c. c \<notin> set WHITESPACE" "c # cs"] by auto
    then have "spec_tokens (d # r) = filter (\<lambda>w. w \<noteq> []) (split_ws r)"
      by (simp add: spec_tokens_def)
    then show ?thesis using * Cons by simp
  qed
qed

lemma parse_args_spec_tokens:
  "length argv < MAXARGS \<Longrightarrow>
   parse_args buf argv =
     (if length argv + length (spec_tokens buf) < MAXARGS then Some (argv @ spec_tokens buf)
      else None)"
proof (induction buf argv rule: parse_args.induct)
  case (1 buf argv)
  define buf1 where "buf1 = dropWhile (\<lambda>c. c \<in> set WHITESPACE) buf"
  have st: "spec_tokens buf = spec_tokens buf1"
    by (simp add: buf1_def spec_tokens_dropWhile)
  show ?case
  proof (cases buf1)
    case Nil
    then show ?thesis
      using 1(2) st
      by (subst parse_args.simps) (simp add: buf1_def [symmetric] spec_tokens_Nil)
  next
    case (Cons c cs)
    then have c: "c \<notin> set WHITESPACE"
      using hd_dropWhile [of "\<lambda>c. c \<in> set WHITESPACE" buf] by (auto simp: buf1_def)
    have tok: "spec_tokens buf =
        takeWhile (\<lambda>c. c \<notin> set WHITESPACE) buf1 #
          spec_tokens (dropWhile (\<lambda>c. c \<notin> set WHITESPACE) buf1)"
      using spec_tokens_word [OF c, of cs] st Cons by simp
    show ?thesis
    proof (cases "length argv = MAXARGS - 1")
      case True
      then show ?thesis
        using Cons tok 1(2)
        by (subst parse_args.simps) (simp add: buf1_def [symmetric] Let_def)
    next
      case False
      have ih: "parse_args (dropWhile (\<lambda>c. c \<notin> set WHITESPACE) buf1)
                  (argv @ [takeWhile (\<lambda>c. c \<notin> set WHITESPACE) buf1]) =
         (if length (argv @ [takeWhile (\<lambda>c. c \<notin> set WHITESPACE) buf1]) +
               length (spec_tokens (dropWhile (\<lambda>c. c \<notin> set WHITESPACE) buf1)) < MAXARGS
          then Some ((argv @ [takeWhile (\<lambda>c. c \<notin> set WHITESPACE) buf1]) @
                  spec_tokens (dropWhile (\<lambda>c. c \<notin> set WHITESPACE) buf1))
          else None)"
        using 1(1) [OF buf1_def _ False] Cons False 1(2) by simp
      show ?thesis
        using Cons False tok ih
        by (subst parse_args.simps) (simp add: buf1_def [symmetric] Let_def)
    qed
  qed
qed

lemma parse_args_tokens:
  "parse_args buf [] = (if length (spec_tokens buf) < MAXARGS then Some (spec_tokens buf) else None)"
  using parse_args_spec_tokens [of "[]" buf] by (simp add: MAXARGS_def)

lemma console_cprintf: "console (cprintf fmt args s) = console s @ [Cprintf fmt args]"
  by (simp add: cprintf_def)

lemma backtrace_loop_console:
  assumes "backtrace_loop m ebp s = Some y"
  shows "\<forall>s'. y = Inr s' \<longrightarrow>
           (\<exists>out. console s' = console s @ out \<and>
              Cprintf ''Too many arguments (max %d)\<newline>'' [A_int 16] \<notin> set out)"
  using assms
proof (induction m ebp s y rule: backtrace_loop.raw_induct)
  case (1 loop m ebp s y)
  show ?case
  proof (cases "ebp = 0")
    case True
    with 1(2) show ?thesis by auto
  next
    case False
    show ?thesis
    proof (cases "debuginfo_eip m (load32 m (ebp + 4))")
      case None
      with 1(2) False show ?thesis by auto
    next
      case (Some info)
      let ?line = "Cprintf
                  ''  ebp %08x  eip %08x  args %08x %08x %08x %08x %08x\<newline>         %s:%d: %.*s+%d\<newline>''
                  [A_u32 ebp, A_u32 (load32 m (ebp + 4)),
                   A_u32 (load32 m (ebp + 8)), A_u32 (load32 m (ebp + 12)),
                   A_u32 (load32 m (ebp + 16)), A_u32 (load32 m (ebp + 20)),
                   A_u32 (load32 m (ebp + 24)), A_str (eip_file info),
                   A_int (eip_line info), A_int (eip_fn_namelen info),
                   A_str (eip_fn_name info),
                   A_u32 (load32 m (ebp + 4) - eip_fn_addr info)]"
      from 1(2) False Some
      have a: "loop m (load32 m ebp) (s\<lparr>console := console s @ [?line]\<rparr>) = Some y"
        by (simp add: cprintf_def)
      from 1(3) False Some
      have b: "backtrace_loop m (load32 m ebp) (s\<lparr>console := console s @ [?line]\<rparr>) = Some y"
        by (subst (asm) backtrace_loop.simps) (simp add: cprintf_def)
      have ih: "\<forall>s'. y = Inr s' \<longrightarrow>
           (\<exists>out. console s' = (console s @ [?line]) @ out \<and>
              Cprintf ''Too many arguments (max %d)\<newline>'' [A_int 16] \<notin> set out)"
        using 1(1) [OF a b] by simp
      show ?thesis
      proof (intro allI impI)
        fix s'
        assume "y = Inr s'"
        with ih obtain out where out: "console s' = (console s @ [?line]) @ out"
          and no: "Cprintf ''Too many arguments (max %d)\<newline>'' [A_int 16] \<notin> set out"
          by blast
        have "console s' = console s @ (?line # out)"
          using out by simp
        moreover have "Cprintf ''Too many arguments (max %d)\<newline>'' [A_int 16] \<notin> set (?line # out)"
          using no by simp
        ultimately show "\<exists>out. console s' = console s @ out \<and>
              Cprintf ''Too many arguments (max %d)\<newline>'' [A_int 16] \<notin> set out"
          by blast
      qed
    qed
  qed
qed (rule assms)

lemma handlers_console:
  assumes "c \<in> set commands" and "func c m argv s = Some (Inr (r, s'))"
  shows "\<exists>out. console s' = console s @ out \<and>
           Cprintf ''Too many arguments (max %d)\<newline>'' [A_int 16] \<notin> set out"
proof -
  from assms(1) consider "func c = mon_help" | "func c = mon_kerninfo" | "func c = mon_backtrace"
    | "func c = on_trapframe mon_step" | "func c = on_trapframe mon_exitstep"
    by (auto simp: commands_def)
  then show ?thesis
  proof cases
    case 1
    with assms(2) have "console s' = console s @
        map (\<lambda>(n, d). Cprintf ''%s - %s\<newline>'' [A_str n, A_str d]) command_descs"
      by (auto simp: mon_help_def command_descs_def cprintf_def)
    moreover have "Cprintf ''Too many arguments (max %d)\<newline>'' [A_int 16] \<notin>
        set (map (\<lambda>(n, d). Cprintf ''%s - %s\<newline>'' [A_str n, A_str d]) command_descs)"
      by auto
    ultimately show ?thesis by blast
  next
    case 2
    with assms(2) have "console s' = console s @
       [Cprintf ''Special kernel symbols:\<newline>'' [],
        Cprintf ''  _start                  %08x (phys)\<newline>'' [A_u32 (sym_start m)],
        Cprintf ''  entry  %08x (virt)  %08x (phys)\<newline>''
                [A_u32 (sym_entry m), A_u32 (sym_entry m - KERNBASE)],
        Cprintf ''  etext  %08x (virt)  %08x (phys)\<newline>''
                [A_u32 (sym_etext m), A_u32 (sym_etext m - KERNBASE)],
        Cprintf ''  edata  %08x (virt)  %08x (phys)\<newline>''
                [A_u32 (sym_edata m), A_u32 (sym_edata m - KERNBASE)],
        Cprintf ''  end    %08x (virt)  %08x (phys)\<newline>''
                [A_u32 (sym_end m), A_u32 (sym_end m - KERNBASE)],
        Cprintf ''Kernel executable memory footprint: %dKB\<newline>''
                [A_int (sint (ROUNDUP (sym_end m - sym_entry m) 1024) sdiv 1024)]]"
      by (auto simp: mon_kerninfo_def cprintf_def Let_def)
    then show ?thesis by simp
  next
    case 3
    with assms(2) have "backtrace_loop m (read_ebp m) (cprintf ''Stack backtrace:\<newline>'' [] s) = Some (Inr s')"
      by (auto simp: mon_backtrace_def split: option.splits sum.splits)
    from backtrace_loop_console [OF this]
    obtain out where out: "console s' = (console s @ [Cprintf ''Stack backtrace:\<newline>'' []]) @ out"
      and no: "Cprintf ''Too many arguments (max %d)\<newline>'' [A_int 16] \<notin> set out"
      unfolding console_cprintf by blast
    have "console s' = console s @ (Cprintf ''Stack backtrace:\<newline>'' [] # out)"
      using out by simp
    moreover have "Cprintf ''Too many arguments (max %d)\<newline>'' [A_int 16] \<notin>
        set (Cprintf ''Stack backtrace:\<newline>'' [] # out)"
      using no by simp
    ultimately show ?thesis by blast
  next
    case 4
    with assms(2) have "console s' = console s @ []"
      by (auto simp: on_trapframe_def split: option.splits sum.splits)
    then show ?thesis by (intro exI [of _ "[]"]) simp
  next
    case 5
    with assms(2) have "console s' = console s @ []"
      by (auto simp: on_trapframe_def split: option.splits sum.splits)
    then show ?thesis by (intro exI [of _ "[]"]) simp
  qed
qed

lemma runcmd_dispatch:
  assumes "length (spec_tokens buf) \<le> 15"
  shows "runcmd m buf s =
     (case spec_tokens buf of
        [] \<Rightarrow> Some (Inr (0, s))
      | cmd # args \<Rightarrow>
          (case find (\<lambda>c. cmd = name c) commands of
             Some c \<Rightarrow> func c m (cmd # args) s
           | None \<Rightarrow>
               Some (Inr (0, s\<lparr>console := console s @
                               [Cprintf ''Unknown command '%s'\<newline>'' [A_str cmd]]\<rparr>))))"
proof -
  have parsed: "parse_args buf [] = Some (spec_tokens buf)"
    using assms by (simp add: parse_args_tokens MAXARGS_def)
  show ?thesis
  proof (cases "spec_tokens buf")
    case Nil
    then show ?thesis
      by (simp add: runcmd_def parsed)
  next
    case (Cons cmd args)
    then show ?thesis
      by (simp add: runcmd_def parsed cprintf_def split: option.splits)
  qed
qed

lemma runcmd_no_diagnostic:
  assumes "length (spec_tokens buf) \<le> 15" and "runcmd m buf s = Some (Inr (r, s'))"
  shows "\<exists>out. console s' = console s @ out \<and>
           Cprintf ''Too many arguments (max %d)\<newline>'' [A_int 16] \<notin> set out"
proof (cases "spec_tokens buf")
  case Nil
  with assms have "s' = s"
    by (simp add: runcmd_dispatch)
  then show ?thesis by (intro exI [of _ "[]"]) simp
next
  case (Cons cmd args)
  show ?thesis
  proof (cases "find (\<lambda>c. cmd = name c) commands")
    case None
    with assms Cons have "console s' = console s @ [Cprintf ''Unknown command '%s'\<newline>'' [A_str cmd]]"
      by (auto simp: runcmd_dispatch)
    then show ?thesis by simp
  next
    case (Some c)
    then have "c \<in> set commands"
      by (auto simp: find_Some_iff)
    moreover from assms Cons Some have "func c m (cmd # args) s = Some (Inr (r, s'))"
      by (simp add: runcmd_dispatch)
    ultimately show ?thesis
      by (rule handlers_console)
  qed
qed

text \<open>
  C9. A line of at most \<open>MAXARGS - 1 = 15\<close> tokens does not overflow: it is parsed into
  exactly its tokens, and \<open>runcmd\<close> does with them what it does with a parsed line (no
  token: status 0 and nothing printed; a first token that names no command: the
  unknown-command message and status 0; otherwise the handler of the first table entry
  of that name, called with all the tokens, its result returned as it is), and whatever
  it prints, it does not print the too-many-arguments diagnostic. A line with a
  sixteenth token takes the overflow branch: \<open>runcmd\<close> prints the diagnostic with the
  number 16, calls no handler (nothing else is printed and the trap frame is as before)
  and returns 0, on which the monitor loop goes on to the next line.
\<close>

theorem runcmd_token_limit:
  "MAXARGS - 1 = 15 \<and>
   (length (spec_tokens buf) \<le> 15 \<longrightarrow>
      parse_args buf [] = Some (spec_tokens buf) \<and>
      runcmd m buf s =
        (case spec_tokens buf of
           [] \<Rightarrow> Some (Inr (0, s))
         | cmd # args \<Rightarrow>
             (case find (\<lambda>c. cmd = name c) commands of
                Some c \<Rightarrow> func c m (cmd # args) s
              | None \<Rightarrow>
                  Some (Inr (0, s\<lparr>console := console s @
                                  [Cprintf ''Unknown command '%s'\<newline>'' [A_str cmd]]\<rparr>)))) \<and>
      (\<forall>r s'. runcmd m buf s = Some (Inr (r, s')) \<longrightarrow>
         (\<exists>out. console s' = console s @ out \<and>
            Cprintf ''Too many arguments (max %d)\<newline>'' [A_int 16] \<notin> set out))) \<and>
   (15 < length (spec_tokens buf) \<longrightarrow>
      parse_args buf [] = None \<and>
      runcmd m buf s =
        Some (Inr (0, s\<lparr>console := console s @
                        [Cprintf ''Too many arguments (max %d)\<newline>'' [A_int 16]]\<rparr>)) \<and>
      monitor_loop m (Some buf # lines) s =
        monitor_loop m lines
          (s\<lparr>console := console s @
               [Readline ''K> '', Cprintf ''Too many arguments (max %d)\<newline>'' [A_int 16]]\<rparr>))"
proof (intro conjI impI allI)
  show "MAXARGS - 1 = 15"
    by (simp add: MAXARGS_def)
next
  assume "length (spec_tokens buf) \<le> 15"
  then show "parse_args buf [] = Some (spec_tokens buf)"
    by (simp add: parse_args_tokens MAXARGS_def)
next
  assume "length (spec_tokens buf) \<le> 15"
  then show "runcmd m buf s =
        (case spec_tokens buf of
           [] \<Rightarrow> Some (Inr (0, s))
         | cmd # args \<Rightarrow>
             (case find (\<lambda>c. cmd = name c) commands of
                Some c \<Rightarrow> func c m (cmd # args) s
              | None \<Rightarrow>
                  Some (Inr (0, s\<lparr>console := console s @
                                  [Cprintf ''Unknown command '%s'\<newline>'' [A_str cmd]]\<rparr>))))"
    by (rule runcmd_dispatch)
next
  fix r s'
  assume "length (spec_tokens buf) \<le> 15" and "runcmd m buf s = Some (Inr (r, s'))"
  then show "\<exists>out. console s' = console s @ out \<and>
            Cprintf ''Too many arguments (max %d)\<newline>'' [A_int 16] \<notin> set out"
    by (rule runcmd_no_diagnostic)
next
  assume over: "15 < length (spec_tokens buf)"
  then show none: "parse_args buf [] = None"
    by (simp add: parse_args_tokens MAXARGS_def)
  then show "runcmd m buf s =
        Some (Inr (0, s\<lparr>console := console s @
                        [Cprintf ''Too many arguments (max %d)\<newline>'' [A_int 16]]\<rparr>))"
    by (simp add: runcmd_def cprintf_def MAXARGS_def)
  from none show "monitor_loop m (Some buf # lines) s =
        monitor_loop m lines
          (s\<lparr>console := console s @
               [Readline ''K> '', Cprintf ''Too many arguments (max %d)\<newline>'' [A_int 16]]\<rparr>)"
    by (simp add: runcmd_def cprintf_def readline_def MAXARGS_def)
qed

lemma spec_tokens_help_me: "spec_tokens '' help  me'' = [''help'', ''me'']"
  by (simp add: spec_tokens_def WHITESPACE_def)

lemma spec_tokens_sixteen:
  "spec_tokens ''a b c d e f g h i j k l m n o p'' =
     [''a'', ''b'', ''c'', ''d'', ''e'', ''f'', ''g'', ''h'', ''i'', ''j'', ''k'', ''l'', ''m'',
      ''n'', ''o'', ''p'']"
  by (simp add: spec_tokens_def WHITESPACE_def)

lemma spec_tokens_fifteen:
  "spec_tokens ''help b c d e f g h i j k l m n o'' =
     [''help'', ''b'', ''c'', ''d'', ''e'', ''f'', ''g'', ''h'', ''i'', ''j'', ''k'', ''l'', ''m'',
      ''n'', ''o'']"
  by (simp add: spec_tokens_def WHITESPACE_def)

lemma spec_tokens_frob: "spec_tokens ''frob 1'' = [''frob'', ''1'']"
  by (simp add: spec_tokens_def WHITESPACE_def)

theorem runcmd_token_limit_witness:
  "parse_args '' help  me'' [] = Some [''help'', ''me''] \<and>
   runcmd machine0 ''help b c d e f g h i j k l m n o'' session0 =
     Some (Inr (0, session0\<lparr>console :=
       [Cprintf ''%s - %s\<newline>'' [A_str ''help'', A_str ''Display this list of commands''],
        Cprintf ''%s - %s\<newline>'' [A_str ''kerninfo'', A_str ''Display information about the kernel''],
        Cprintf ''%s - %s\<newline>'' [A_str ''backtrace'', A_str ''Display all stack frames''],
        Cprintf ''%s - %s\<newline>''
          [A_str ''step'', A_str ''Single step when already in debugging console''],
        Cprintf ''%s - %s\<newline>'' [A_str ''exitstep'', A_str ''Exit single stepping'']]\<rparr>)) \<and>
   runcmd machine0 ''frob 1'' session0 =
     Some (Inr (0, session0\<lparr>console := [Cprintf ''Unknown command '%s'\<newline>'' [A_str ''frob'']]\<rparr>)) \<and>
   runcmd machine0 ''a b c d e f g h i j k l m n o p'' session0 =
     Some (Inr (0, session0\<lparr>console := [Cprintf ''Too many arguments (max %d)\<newline>'' [A_int 16]]\<rparr>))"
  using runcmd_token_limit [of "'' help  me''"]
    runcmd_token_limit [of "''help b c d e f g h i j k l m n o''" machine0 session0]
    runcmd_token_limit [of "''frob 1''" machine0 session0]
    runcmd_token_limit [of "''a b c d e f g h i j k l m n o p''" machine0 session0]
  by (simp add: spec_tokens_help_me spec_tokens_fifteen spec_tokens_frob spec_tokens_sixteen
      session0_def commands_def mon_help_def command_descs_def cprintf_def)

subsection \<open>Monitor loop\<close>

lemma runcmd_step:
  assumes "parse_args buf [] = Some (''step'' # args)" and "trapframe s = Some tf"
    and "mon_step tf = Inr (r, tf')"
  shows "runcmd m buf s = Some (Inr (r, s\<lparr>trapframe := Some tf'\<rparr>))"
  using assms by (simp add: runcmd_def commands_def on_trapframe_def)

lemma runcmd_exitstep:
  assumes "parse_args buf [] = Some (''exitstep'' # args)" and "trapframe s = Some tf"
    and "mon_exitstep tf = Inr (r, tf')"
  shows "runcmd m buf s = Some (Inr (r, s\<lparr>trapframe := Some tf'\<rparr>))"
  using assms by (simp add: runcmd_def commands_def on_trapframe_def)

lemma parse_args_step: "parse_args ''step'' [] = Some [''step'']"
  by (simp add: parse_args_tokens spec_tokens_def WHITESPACE_def MAXARGS_def)

text \<open>
  C1, as stated, fails: in a debug session the line \<open>step\<close> makes \<open>runcmd\<close> return \<open>-2\<close>,
  and the monitor loop is left there, the next line (\<open>help\<close>) never being read.
\<close>

theorem monitor_left_on_resume_status:
  "runcmd machine0 ''step'' (readline ''K> '' session0) =
     Some (Inr (- 2,
       \<lparr>console = [Readline ''K> ''],
        trapframe = Some \<lparr>tf_trapno = 1, tf_eip = 0x800020, tf_eflags = 0x302, tf_ebp = 0xEEBFDF00\<rparr>\<rparr>)) \<and>
   monitor_loop machine0 [Some ''step'', Some ''help''] session0 =
     Some (Left_loop [Some ''help'']
       \<lparr>console = [Readline ''K> ''],
        trapframe = Some \<lparr>tf_trapno = 1, tf_eip = 0x800020, tf_eflags = 0x302, tf_ebp = 0xEEBFDF00\<rparr>\<rparr>)"
  by (simp add: runcmd_def parse_args_step commands_def on_trapframe_def mon_step_def
      T_DEBUG_def T_BRKPT_def readline_def session0_def)

text \<open>
  C1, amended. The monitor loop is left exactly when the status \<open>runcmd\<close> returns is
  negative, and goes on to the next line otherwise. The resume status \<open>-2\<close> is negative:
  whenever the handler of a \<open>step\<close> or \<open>exitstep\<close> line returns, it returns \<open>-2\<close> and the
  loop is left with the lines after it unread.
\<close>

theorem monitor_loop_left_iff_negative:
  "(runcmd m buf (readline ''K> '' s) = Some (Inr (r, s')) \<longrightarrow>
      monitor_loop m (Some buf # lines) s =
        (if r < 0 then Some (Left_loop lines s') else monitor_loop m lines s')) \<and>
   (parse_args buf [] = Some (''step'' # args) \<and> trapframe s = Some tf \<and>
    mon_step tf = Inr (r, tf') \<longrightarrow>
      r = - 2 \<and>
      monitor_loop m (Some buf # lines) s =
        Some (Left_loop lines (s\<lparr>console := console s @ [Readline ''K> ''], trapframe := Some tf'\<rparr>))) \<and>
   (parse_args buf [] = Some (''exitstep'' # args) \<and> trapframe s = Some tf \<and>
    mon_exitstep tf = Inr (r, tf') \<longrightarrow>
      r = - 2 \<and>
      monitor_loop m (Some buf # lines) s =
        Some (Left_loop lines (s\<lparr>console := console s @ [Readline ''K> ''], trapframe := Some tf'\<rparr>)))"
proof (intro conjI impI; (elim conjE)?)
  assume "runcmd m buf (readline ''K> '' s) = Some (Inr (r, s'))"
  then show "monitor_loop m (Some buf # lines) s =
        (if r < 0 then Some (Left_loop lines s') else monitor_loop m lines s')"
    by simp
next
  assume p: "parse_args buf [] = Some (''step'' # args)" and t: "trapframe s = Some tf"
    and h: "mon_step tf = Inr (r, tf')"
  from h show r: "r = - 2"
    unfolding mon_step_returns by (simp split: if_splits)
  have "trapframe (readline ''K> '' s) = Some tf"
    using t by (simp add: readline_def)
  from runcmd_step [OF p this h, of m] r
  show "monitor_loop m (Some buf # lines) s =
        Some (Left_loop lines (s\<lparr>console := console s @ [Readline ''K> ''], trapframe := Some tf'\<rparr>))"
    by (simp add: readline_def)
next
  assume p: "parse_args buf [] = Some (''exitstep'' # args)" and t: "trapframe s = Some tf"
    and h: "mon_exitstep tf = Inr (r, tf')"
  from h show r: "r = - 2"
    unfolding mon_exitstep_returns by (simp split: if_splits)
  have "trapframe (readline ''K> '' s) = Some tf"
    using t by (simp add: readline_def)
  from runcmd_exitstep [OF p this h, of m] r
  show "monitor_loop m (Some buf # lines) s =
        Some (Left_loop lines (s\<lparr>console := console s @ [Readline ''K> ''], trapframe := Some tf'\<rparr>))"
    by (simp add: readline_def)
qed

theorem monitor_loop_left_iff_negative_witness:
  "monitor_loop machine0 [Some ''step'', Some ''kerninfo''] session0 =
     Some (Left_loop [Some ''kerninfo'']
       \<lparr>console = [Readline ''K> ''],
        trapframe = Some \<lparr>tf_trapno = 1, tf_eip = 0x800020, tf_eflags = 0x302, tf_ebp = 0xEEBFDF00\<rparr>\<rparr>)"
  using monitor_loop_left_iff_negative
          [where buf = "''step''" and args = "[]" and s = session0 and m = machine0
             and tf = "\<lparr>tf_trapno = 1, tf_eip = 0x800020, tf_eflags = 0x202, tf_ebp = 0xEEBFDF00\<rparr>"
             and r = "- 2" and lines = "[Some ''kerninfo'']"
             and tf' = "\<lparr>tf_trapno = 1, tf_eip = 0x800020, tf_eflags = 0x302, tf_ebp = 0xEEBFDF00\<rparr>"]
  by (simp add: parse_args_step session0_def mon_step_def T_DEBUG_def T_BRKPT_def)

subsection \<open>Stack unwinder\<close>

lemma backtrace_loop_chain:
  assumes "fp_chain m ebp fps"
    and "\<forall>fp \<in> set fps. debuginfo_eip m (load32 m (fp + 4)) \<noteq> None"
  shows "backtrace_loop m ebp s =
     Some (Inr (s\<lparr>console := console s @
       map (\<lambda>fp. Cprintf
              ''  ebp %08x  eip %08x  args %08x %08x %08x %08x %08x\<newline>         %s:%d: %.*s+%d\<newline>''
              [A_u32 fp, A_u32 (load32 m (fp + 4)),
               A_u32 (load32 m (fp + 8)), A_u32 (load32 m (fp + 12)), A_u32 (load32 m (fp + 16)),
               A_u32 (load32 m (fp + 20)), A_u32 (load32 m (fp + 24)),
               A_str (eip_file (the (debuginfo_eip m (load32 m (fp + 4))))),
               A_int (eip_line (the (debuginfo_eip m (load32 m (fp + 4))))),
               A_int (eip_fn_namelen (the (debuginfo_eip m (load32 m (fp + 4))))),
               A_str (eip_fn_name (the (debuginfo_eip m (load32 m (fp + 4))))),
               A_u32 (load32 m (fp + 4) - eip_fn_addr (the (debuginfo_eip m (load32 m (fp + 4)))))])
         fps\<rparr>))"
  using assms
proof (induction fps arbitrary: ebp s)
  case Nil
  then show ?case
    by (subst backtrace_loop.simps) simp
next
  case (Cons fp fps)
  from Cons.prems have ebp: "ebp \<noteq> 0" "fp = ebp" and rest: "fp_chain m (load32 m ebp) fps"
    by simp_all
  from Cons.prems obtain info where info: "debuginfo_eip m (load32 m (ebp + 4)) = Some info"
    using ebp by auto
  have all: "\<forall>fp \<in> set fps. debuginfo_eip m (load32 m (fp + 4)) \<noteq> None"
    using Cons.prems by simp
  show ?case
    by (subst backtrace_loop.simps) (simp add: ebp info Cons.IH [OF rest all] cprintf_def)
qed

lemma backtrace_loop_unresolved:
  assumes "fp_chain m ebp fps"
    and "\<exists>fp \<in> set fps. debuginfo_eip m (load32 m (fp + 4)) = None"
  shows "backtrace_loop m ebp s = Some (Inl (Panic ''Address not found in mon_backtrace''))"
  using assms
proof (induction fps arbitrary: ebp s)
  case Nil
  then show ?case by simp
next
  case (Cons fp fps)
  from Cons.prems have ebp: "ebp \<noteq> 0" "fp = ebp" and rest: "fp_chain m (load32 m ebp) fps"
    by simp_all
  show ?case
  proof (cases "debuginfo_eip m (load32 m (ebp + 4))")
    case None
    then show ?thesis
      by (subst backtrace_loop.simps) (simp add: ebp)
  next
    case (Some info)
    with Cons.prems ebp have "\<exists>fp \<in> set fps. debuginfo_eip m (load32 m (fp + 4)) = None"
      by auto
    from Cons.IH [OF rest this] show ?thesis
      by (subst backtrace_loop.simps) (simp add: ebp Some)
  qed
qed

text \<open>
  C6. Let the frame pointer register start a chain of the \<open>k\<close> frames \<open>fps\<close> that ends
  in a zero link. If the symbol resolver knows every return address, \<open>mon_backtrace\<close>
  returns 0 after printing the heading and then exactly \<open>k\<close> lines, one for each frame
  from the innermost outwards: the frame pointer, the word at offset 4 as return
  address, the words at offsets 8, 12, 16, 20 and 24 as arguments, and what the resolver
  says of the return address. If the resolver fails on the return address of any frame
  of the chain, \<open>mon_backtrace\<close> does not return: the kernel panics.
\<close>

theorem mon_backtrace_chain:
  assumes "fp_chain m (read_ebp m) fps"
  shows
    "((\<forall>fp \<in> set fps. debuginfo_eip m (load32 m (fp + 4)) \<noteq> None) \<longrightarrow>
        mon_backtrace m argv s =
          Some (Inr (0, s\<lparr>console := console s @
            Cprintf ''Stack backtrace:\<newline>'' [] #
            map (\<lambda>fp. Cprintf
                ''  ebp %08x  eip %08x  args %08x %08x %08x %08x %08x\<newline>         %s:%d: %.*s+%d\<newline>''
                [A_u32 fp, A_u32 (load32 m (fp + 4)),
                 A_u32 (load32 m (fp + 8)), A_u32 (load32 m (fp + 12)), A_u32 (load32 m (fp + 16)),
                 A_u32 (load32 m (fp + 20)), A_u32 (load32 m (fp + 24)),
                 A_str (eip_file (the (debuginfo_eip m (load32 m (fp + 4))))),
                 A_int (eip_line (the (debuginfo_eip m (load32 m (fp + 4))))),
                 A_int (eip_fn_namelen (the (debuginfo_eip m (load32 m (fp + 4))))),
                 A_str (eip_fn_name (the (debuginfo_eip m (load32 m (fp + 4))))),
                 A_u32 (load32 m (fp + 4) - eip_fn_addr (the (debuginfo_eip m (load32 m (fp + 4)))))])
              fps\<rparr>))) \<and>
     ((\<exists>fp \<in> set fps. debuginfo_eip m (load32 m (fp + 4)) = None) \<longrightarrow>
        mon_backtrace m argv s = Some (Inl (Panic ''Address not found in mon_backtrace'')))"
proof (intro conjI impI)
  assume "\<forall>fp \<in> set fps. debuginfo_eip m (load32 m (fp + 4)) \<noteq> None"
  from backtrace_loop_chain [OF assms this, of "cprintf ''Stack backtrace:\<newline>'' [] s"]
  show "mon_backtrace m argv s =
          Some (Inr (0, s\<lparr>console := console s @
            Cprintf ''Stack backtrace:\<newline>'' [] #
            map (\<lambda>fp. Cprintf
                ''  ebp %08x  eip %08x  args %08x %08x %08x %08x %08x\<newline>         %s:%d: %.*s+%d\<newline>''
                [A_u32 fp, A_u32 (load32 m (fp + 4)),
                 A_u32 (load32 m (fp + 8)), A_u32 (load32 m (fp + 12)), A_u32 (load32 m (fp + 16)),
                 A_u32 (load32 m (fp + 20)), A_u32 (load32 m (fp + 24)),
                 A_str (eip_file (the (debuginfo_eip m (load32 m (fp + 4))))),
                 A_int (eip_line (the (debuginfo_eip m (load32 m (fp + 4))))),
                 A_int (eip_fn_namelen (the (debuginfo_eip m (load32 m (fp + 4))))),
                 A_str (eip_fn_name (the (debuginfo_eip m (load32 m (fp + 4))))),
                 A_u32 (load32 m (fp + 4) - eip_fn_addr (the (debuginfo_eip m (load32 m (fp + 4)))))])
              fps\<rparr>))"
    by (simp add: mon_backtrace_def cprintf_def)
next
  assume "\<exists>fp \<in> set fps. debuginfo_eip m (load32 m (fp + 4)) = None"
  from backtrace_loop_unresolved [OF assms this, of "cprintf ''Stack backtrace:\<newline>'' [] s"]
  show "mon_backtrace m argv s = Some (Inl (Panic ''Address not found in mon_backtrace''))"
    by (simp add: mon_backtrace_def)
qed

theorem mon_backtrace_chain_witness:
  "fp_chain machine0 (read_ebp machine0) [0x1000, 0x2000] \<and>
   mon_backtrace machine0 [''backtrace''] session0 =
     Some (Inr (0, session0\<lparr>console :=
       [Cprintf ''Stack backtrace:\<newline>'' [],
        Cprintf
          ''  ebp %08x  eip %08x  args %08x %08x %08x %08x %08x\<newline>         %s:%d: %.*s+%d\<newline>''
          [A_u32 0x1000, A_u32 0xF0100040, A_u32 5, A_u32 6, A_u32 7, A_u32 8, A_u32 9,
           A_str ''kern/init.c'', A_int 24, A_int 14, A_str ''test_backtrace'', A_u32 0x40],
        Cprintf
          ''  ebp %08x  eip %08x  args %08x %08x %08x %08x %08x\<newline>         %s:%d: %.*s+%d\<newline>''
          [A_u32 0x2000, A_u32 0xF0100080, A_u32 1, A_u32 0, A_u32 0, A_u32 0, A_u32 0,
           A_str ''kern/entry.S'', A_int 83, A_int 9, A_str ''<unknown>'', A_u32 0]]\<rparr>)) \<and>
   mon_backtrace (machine0\<lparr>debuginfo_eip := Map.empty\<rparr>) [''backtrace''] session0 =
     Some (Inl (Panic ''Address not found in mon_backtrace''))"
proof -
  let ?fmt = "''  ebp %08x  eip %08x  args %08x %08x %08x %08x %08x\<newline>         %s:%d: %.*s+%d\<newline>''"
  let ?m = "machine0\<lparr>debuginfo_eip := Map.empty\<rparr>"
  have chain: "fp_chain machine0 (read_ebp machine0) [0x1000, 0x2000]"
    by (simp add: machine0_def)
  have known: "\<forall>fp \<in> set [0x1000, 0x2000]. debuginfo_eip machine0 (load32 machine0 (fp + 4)) \<noteq> None"
    by (simp add: machine0_def)
  have chain': "fp_chain ?m (read_ebp ?m) [0x1000, 0x2000]"
    by (simp add: machine0_def)
  have unknown: "\<exists>fp \<in> set [0x1000, 0x2000]. debuginfo_eip ?m (load32 ?m (fp + 4)) = None"
    by auto
  have lines: "map (\<lambda>fp. Cprintf ?fmt
                [A_u32 fp, A_u32 (load32 machine0 (fp + 4)),
                 A_u32 (load32 machine0 (fp + 8)), A_u32 (load32 machine0 (fp + 12)),
                 A_u32 (load32 machine0 (fp + 16)),
                 A_u32 (load32 machine0 (fp + 20)), A_u32 (load32 machine0 (fp + 24)),
                 A_str (eip_file (the (debuginfo_eip machine0 (load32 machine0 (fp + 4))))),
                 A_int (eip_line (the (debuginfo_eip machine0 (load32 machine0 (fp + 4))))),
                 A_int (eip_fn_namelen (the (debuginfo_eip machine0 (load32 machine0 (fp + 4))))),
                 A_str (eip_fn_name (the (debuginfo_eip machine0 (load32 machine0 (fp + 4))))),
                 A_u32 (load32 machine0 (fp + 4) -
                   eip_fn_addr (the (debuginfo_eip machine0 (load32 machine0 (fp + 4)))))])
              [0x1000, 0x2000] =
        [Cprintf ?fmt
          [A_u32 0x1000, A_u32 0xF0100040, A_u32 5, A_u32 6, A_u32 7, A_u32 8, A_u32 9,
           A_str ''kern/init.c'', A_int 24, A_int 14, A_str ''test_backtrace'', A_u32 0x40],
         Cprintf ?fmt
          [A_u32 0x2000, A_u32 0xF0100080, A_u32 1, A_u32 0, A_u32 0, A_u32 0, A_u32 0,
           A_str ''kern/entry.S'', A_int 83, A_int 9, A_str ''<unknown>'', A_u32 0]]"
    by (simp add: machine0_def)
  have empty: "console session0 = []"
    by (simp add: session0_def)
  from mon_backtrace_chain [OF chain, of "[''backtrace'']" session0] known
  have "mon_backtrace machine0 [''backtrace''] session0 =
     Some (Inr (0, session0\<lparr>console :=
       [Cprintf ''Stack backtrace:\<newline>'' [],
        Cprintf ?fmt
          [A_u32 0x1000, A_u32 0xF0100040, A_u32 5, A_u32 6, A_u32 7, A_u32 8, A_u32 9,
           A_str ''kern/init.c'', A_int 24, A_int 14, A_str ''test_backtrace'', A_u32 0x40],
        Cprintf ?fmt
          [A_u32 0x2000, A_u32 0xF0100080, A_u32 1, A_u32 0, A_u32 0, A_u32 0, A_u32 0,
           A_str ''kern/entry.S'', A_int 83, A_int 9, A_str ''<unknown>'', A_u32 0]]\<rparr>))"
    unfolding lines empty by simp
  moreover from mon_backtrace_chain [OF chain', of "[''backtrace'']" session0] unknown
  have "mon_backtrace ?m [''backtrace''] session0 =
     Some (Inl (Panic ''Address not found in mon_backtrace''))"
    by blast
  ultimately show ?thesis
    using chain by blast
qed

section \<open>Properties of the file client\<close>

subsection \<open>Request gateway\<close>

lemma requests_sent_append: "requests_sent (es @ fs) = requests_sent es @ requests_sent fs"
  by (induction es rule: requests_sent.induct) auto

lemma fsipc_result:
  "fs_server x type (fsipcbuf c) = (ret, page) \<Longrightarrow>
   fsipc x type dstva c =
     (ret, c\<lparr>fsipcbuf := page,
             fsenv := (if fsenv c = 0 then ipc_find_env_fs x else fsenv c),
             ftrace := ftrace c @ (if fsenv c = 0 then [F_ipc_find_env] else []) @
               [F_ipc_send (if fsenv c = 0 then ipc_find_env_fs x else fsenv c) type (fsipcbuf c),
                F_ipc_recv dstva]\<rparr>)"
  by (simp add: fsipc_def emit_def Let_def)

lemma max_buf_size_value: "max_buf_size = 4088"
  by (simp add: max_buf_size_def PGSIZE_def sizeof_int_def sizeof_size_t_def)

subsection \<open>File operations\<close>

text \<open>
  C4. For a path of \<open>MAXPATHLEN\<close> characters or more, \<open>open\<close> returns \<open>-E_BAD_PATH\<close>
  having done nothing but print its first message: the descriptor allocator is not
  called, no request is sent, and the request page is as it was.
\<close>

theorem open_file_bad_path:
  assumes "MAXPATHLEN \<le> length path"
  shows "open_file x path mode c =
           (- E_BAD_PATH, c\<lparr>ftrace := ftrace c @ [F_cprintf ''[open] path: %s\<newline>'' [A_str path]]\<rparr>)
         \<and> fsipcbuf (snd (open_file x path mode c)) = fsipcbuf c
         \<and> requests_sent (ftrace (snd (open_file x path mode c))) = requests_sent (ftrace c)
         \<and> F_fd_alloc \<notin> set (drop (length (ftrace c)) (ftrace (snd (open_file x path mode c))))"
  using assms by (simp add: open_file_def emit_def requests_sent_append)

theorem open_file_bad_path_witness:
  "MAXPATHLEN \<le> length (replicate 1024 (CHR ''a'')) \<and>
   open_file ext0 (replicate 1024 (CHR ''a'')) 0 client0 =
     (- 12, client0\<lparr>ftrace := [F_cprintf ''[open] path: %s\<newline>'' [A_str (replicate 1024 (CHR ''a''))]]\<rparr>)"
  using open_file_bad_path [of "replicate 1024 (CHR ''a'')" ext0 0 client0]
  by (simp add: MAXPATHLEN_def E_BAD_PATH_def client0_def)

text \<open>
  C5. Let the path be shorter than \<open>MAXPATHLEN\<close>, let \<open>fd_alloc\<close> succeed with the
  descriptor \<open>fd\<close>, and let \<open>r\<close> be the server's answer to the open request. If \<open>r\<close> is
  negative, \<open>open\<close> calls \<open>fd_close(fd, 0)\<close> after the reply and returns \<open>r\<close> as it is;
  otherwise it returns \<open>fd2num(fd)\<close> and does not call \<open>fd_close\<close>.
\<close>

theorem open_file_gateway_result:
  assumes "length path < MAXPATHLEN"
    and "fd_alloc x = (ra, fd)" and "\<not> sint ra < 0"
    and "fs_server x FSREQ_OPEN ((fsipcbuf c)\<lparr>open_req_path := path, open_req_omode := mode\<rparr>) = (r, page)"
  shows "fst (open_file x path mode c) = (if sint r < 0 then r else fd2num x fd)
       \<and> ftrace (snd (open_file x path mode c)) =
           ftrace c @
           [F_cprintf ''[open] path: %s\<newline>'' [A_str path], F_fd_alloc,
            F_cprintf ''[%08x][open] new path in fsipcbuf: %s\<newline>'' [A_u32 (thisenv_id x), A_str path]] @
           (if fsenv c = 0 then [F_ipc_find_env] else []) @
           [F_ipc_send (if fsenv c = 0 then ipc_find_env_fs x else fsenv c) FSREQ_OPEN
              ((fsipcbuf c)\<lparr>open_req_path := path, open_req_omode := mode\<rparr>),
            F_ipc_recv (Some fd)] @
           (if sint r < 0 then [F_fd_close fd 0] else [])"
proof -
  let ?c3 = "c\<lparr>ftrace := ftrace c @ [F_cprintf ''[open] path: %s\<newline>'' [A_str path], F_fd_alloc,
            F_cprintf ''[%08x][open] new path in fsipcbuf: %s\<newline>'' [A_u32 (thisenv_id x), A_str path]],
       fsipcbuf := (fsipcbuf c)\<lparr>open_req_path := path, open_req_omode := mode\<rparr>\<rparr>"
  have srv: "fs_server x FSREQ_OPEN (fsipcbuf ?c3) = (r, page)"
    using assms(4) by simp
  have "open_file x path mode c =
     (case fsipc x FSREQ_OPEN (Some fd) ?c3 of (r, c) \<Rightarrow>
        if sint r < 0 then (r, emit (F_fd_close fd 0) c) else (fd2num x fd, c))"
    using assms(1,2,3) by (simp add: open_file_def emit_def Let_def)
  then show ?thesis
    by (simp add: fsipc_result [OF srv] emit_def)
qed

theorem open_file_gateway_result_witness:
  "fst (open_file ext0 ''/nope'' 0 client0) = - 11 \<and>
   ftrace (snd (open_file ext0 ''/nope'' 0 client0)) =
     [F_cprintf ''[open] path: %s\<newline>'' [A_str ''/nope''], F_fd_alloc,
      F_cprintf ''[%08x][open] new path in fsipcbuf: %s\<newline>'' [A_u32 0x1002, A_str ''/nope''],
      F_ipc_find_env, F_ipc_send 0x1001 FSREQ_OPEN (page0\<lparr>open_req_path := ''/nope''\<rparr>),
      F_ipc_recv (Some 0xD0000000), F_fd_close 0xD0000000 0] \<and>
   fst (open_file ext0 ''/motd'' 0 client0) = 0 \<and>
   F_fd_close 0xD0000000 0 \<notin> set (ftrace (snd (open_file ext0 ''/motd'' 0 client0)))"
  using open_file_gateway_result
          [where path = "''/nope''" and x = ext0 and mode = 0 and c = client0 and ra = 0
             and fd = "0xD0000000" and r = "- 11" and page = "page0\<lparr>open_req_path := ''/nope''\<rparr>"]
        open_file_gateway_result
          [where path = "''/motd''" and x = ext0 and mode = 0 and c = client0 and ra = 0
             and fd = "0xD0000000" and r = 0 and page = "page0\<lparr>open_req_path := ''/motd''\<rparr>"]
  by (simp add: MAXPATHLEN_def ext0_def client0_def server0_def page0_def)

text \<open>
  C10. When the server's answer \<open>r\<close> is negative, \<open>devfile_read\<close> returns \<open>r\<close> with the
  caller's buffer as it was, and \<open>devfile_stat\<close> returns \<open>r\<close> with the caller's \<open>Stat\<close>
  record as it was.
\<close>

theorem devfile_error_leaves_outputs:
  "(fs_server x FSREQ_READ ((fsipcbuf c)\<lparr>read_req_fileid := fd_file_id fd, read_req_n := n\<rparr>) = (r, page)
      \<and> sint r < 0 \<longrightarrow>
    (\<exists>c'. devfile_read x fd buf n c = Inr (r, buf, c'))) \<and>
   (fs_server x FSREQ_STAT ((fsipcbuf c)\<lparr>stat_req_fileid := fd_file_id fd\<rparr>) = (r, page)
      \<and> sint r < 0 \<longrightarrow>
    (\<exists>c'. devfile_stat x fd st c = (r, st, c')))"
proof (intro conjI impI; elim conjE)
  assume srv: "fs_server x FSREQ_READ ((fsipcbuf c)\<lparr>read_req_fileid := fd_file_id fd, read_req_n := n\<rparr>) = (r, page)"
    and neg: "sint r < 0"
  let ?c = "c\<lparr>fsipcbuf := (fsipcbuf c)\<lparr>read_req_fileid := fd_file_id fd, read_req_n := n\<rparr>\<rparr>"
  have "fs_server x FSREQ_READ (fsipcbuf ?c) = (r, page)"
    using srv by simp
  from fsipc_result [OF this, of None] neg
  show "\<exists>c'. devfile_read x fd buf n c = Inr (r, buf, c')"
    by (simp add: devfile_read_def)
next
  assume srv: "fs_server x FSREQ_STAT ((fsipcbuf c)\<lparr>stat_req_fileid := fd_file_id fd\<rparr>) = (r, page)"
    and neg: "sint r < 0"
  let ?c = "c\<lparr>fsipcbuf := (fsipcbuf c)\<lparr>stat_req_fileid := fd_file_id fd\<rparr>\<rparr>"
  have "fs_server x FSREQ_STAT (fsipcbuf ?c) = (r, page)"
    using srv by simp
  from fsipc_result [OF this, of None] neg
  show "\<exists>c'. devfile_stat x fd st c = (r, st, c')"
    by (simp add: devfile_stat_def)
qed

theorem devfile_error_leaves_outputs_witness:
  "(\<exists>c'. devfile_read ext0 fd8 [1, 2, 3, 4] 4 client0 = Inr (- 3, [1, 2, 3, 4], c')) \<and>
   (\<exists>c'. devfile_stat ext0 fd8 \<lparr>st_name = ''old'', st_size = 1, st_isdir = 1\<rparr> client0 =
           (- 3, \<lparr>st_name = ''old'', st_size = 1, st_isdir = 1\<rparr>, c'))"
  using devfile_error_leaves_outputs
          [where x = ext0 and c = client0 and fd = fd8 and n = 4 and r = "- 3"
             and buf = "[1, 2, 3, 4]" and st = "\<lparr>st_name = ''old'', st_size = 1, st_isdir = 1\<rparr>"
             and page = "page0\<lparr>read_req_fileid := 8, read_req_n := 4\<rparr>"]
        devfile_error_leaves_outputs
          [where x = ext0 and c = client0 and fd = fd8 and n = 4 and r = "- 3"
             and buf = "[1, 2, 3, 4]" and st = "\<lparr>st_name = ''old'', st_size = 1, st_isdir = 1\<rparr>"
             and page = "page0\<lparr>stat_req_fileid := 8\<rparr>"]
  by (simp add: ext0_def client0_def server0_def page0_def fd8_def)


lemma fsipc_requests_sent:
  "requests_sent (ftrace (snd (fsipc x type dstva c))) =
     requests_sent (ftrace c) @ [(type, fsipcbuf c)]"
proof -
  obtain ret page where "fs_server x type (fsipcbuf c) = (ret, page)"
    by (cases "fs_server x type (fsipcbuf c)")
  from fsipc_result [OF this, of dstva] show ?thesis
    by (simp add: requests_sent_append)
qed

lemma fsipc_fst: "fst (fsipc x type dstva c) = fst (fs_server x type (fsipcbuf c))"
proof -
  obtain ret page where "fs_server x type (fsipcbuf c) = (ret, page)"
    by (cases "fs_server x type (fsipcbuf c)")
  from fsipc_result [OF this, of dstva] this show ?thesis
    by simp
qed

lemma devfile_write_result:
  fixes x c fd n buf
  defines "c0 \<equiv> c\<lparr>fsipcbuf := (fsipcbuf c)\<lparr>write_req_fileid := fd_file_id fd,
                write_req_n := (if n > max_buf_size then max_buf_size else n),
                write_req_buf := memmove (write_req_buf (fsipcbuf c)) buf
                  (unat (if n > max_buf_size then max_buf_size else n))\<rparr>\<rparr>"
  defines "reply \<equiv> fst (fs_server x FSREQ_WRITE (fsipcbuf c0))"
  shows "devfile_write x fd buf n c =
           (if sint reply < 0 then Inr (reply, snd (fsipc x FSREQ_WRITE None c0))
            else if \<not> reply \<le> n then Inl (Panic ''assertion failed: r <= n'')
            else if \<not> sint reply \<le> sint PGSIZE then Inl (Panic ''assertion failed: r <= PGSIZE'')
            else Inr (reply, snd (fsipc x FSREQ_WRITE None c0)))"
  unfolding reply_def fsipc_fst [symmetric, where dstva = None]
  by (simp add: devfile_write_def Let_def c0_def split_def)

text \<open>
  C3. The capacity \<open>max_buf_size\<close> is the page size less the sizes of an \<open>int\<close> and of a
  \<open>size_t\<close>, 4088 bytes. \<open>devfile_write\<close> sends exactly one request, whose byte count is
  \<open>n\<close>, or the capacity when \<open>n\<close> is larger. An oversized \<open>n\<close> is no error: whenever the
  operation returns, it returns the server's answer, and it does return when that
  answer is negative or a count within \<open>n\<close> and the page size. A count it returns
  (a result that is not negative) never exceeds \<open>n\<close>.
\<close>

theorem devfile_write_truncates:
  "max_buf_size = PGSIZE - (sizeof_int + sizeof_size_t) \<and> unat max_buf_size = 4088 \<and>
   (let req_n = (if n > max_buf_size then max_buf_size else n);
        page = (fsipcbuf c)\<lparr>write_req_fileid := fd_file_id fd, write_req_n := req_n,
                 write_req_buf := memmove (write_req_buf (fsipcbuf c)) buf (unat req_n)\<rparr>;
        reply = fst (fs_server x FSREQ_WRITE page)
    in (unat max_buf_size < unat n \<longrightarrow> write_req_n page = max_buf_size) \<and>
       (\<forall>r c'. devfile_write x fd buf n c = Inr (r, c') \<longrightarrow>
          requests_sent (ftrace c') = requests_sent (ftrace c) @ [(FSREQ_WRITE, page)] \<and>
          r = reply \<and> (\<not> sint r < 0 \<longrightarrow> unat r \<le> unat n)) \<and>
       (sint reply < 0 \<or> reply \<le> n \<and> sint reply \<le> sint PGSIZE \<longrightarrow>
          (\<exists>c'. devfile_write x fd buf n c = Inr (reply, c'))))"
proof -
  define req_n where "req_n = (if n > max_buf_size then max_buf_size else n)"
  define page where "page = (fsipcbuf c)\<lparr>write_req_fileid := fd_file_id fd, write_req_n := req_n,
                 write_req_buf := memmove (write_req_buf (fsipcbuf c)) buf (unat req_n)\<rparr>"
  define c0 where "c0 = c\<lparr>fsipcbuf := page\<rparr>"
  define reply where "reply = fst (fs_server x FSREQ_WRITE page)"
  define c1 where "c1 = snd (fsipc x FSREQ_WRITE None c0)"
  have sent: "requests_sent (ftrace c1) = requests_sent (ftrace c) @ [(FSREQ_WRITE, page)]"
    by (simp add: c1_def c0_def fsipc_requests_sent)
  have res: "devfile_write x fd buf n c =
           (if sint reply < 0 then Inr (reply, c1)
            else if \<not> reply \<le> n then Inl (Panic ''assertion failed: r <= n'')
            else if \<not> sint reply \<le> sint PGSIZE then Inl (Panic ''assertion failed: r <= PGSIZE'')
            else Inr (reply, c1))"
    unfolding devfile_write_result c1_def c0_def reply_def page_def req_n_def by simp
  have cap: "unat max_buf_size < unat n \<longrightarrow> write_req_n page = max_buf_size"
    by (simp add: page_def req_n_def word_less_nat_alt)
  have ret: "\<forall>r c'. devfile_write x fd buf n c = Inr (r, c') \<longrightarrow>
          requests_sent (ftrace c') = requests_sent (ftrace c) @ [(FSREQ_WRITE, page)] \<and>
          r = reply \<and> (\<not> sint r < 0 \<longrightarrow> unat r \<le> unat n)"
    using sent unfolding res by (auto simp: word_le_nat_alt split: if_splits)
  have tot: "sint reply < 0 \<or> reply \<le> n \<and> sint reply \<le> sint PGSIZE \<longrightarrow>
          (\<exists>c'. devfile_write x fd buf n c = Inr (reply, c'))"
    unfolding res by auto
  have "max_buf_size = PGSIZE - (sizeof_int + sizeof_size_t)"
    by (rule max_buf_size_def)
  moreover have "unat max_buf_size = 4088"
    by (simp add: max_buf_size_value)
  ultimately show ?thesis
    using cap ret tot unfolding Let_def page_def req_n_def reply_def by simp
qed

theorem devfile_write_truncates_witness:
  "unat max_buf_size < unat (5000 :: u32) \<and>
   (\<exists>c'. devfile_write ext0 fd7 (replicate 5000 0x41) 5000 client0 = Inr (4088, c'))"
  using devfile_write_truncates
          [where n = 5000 and c = client0 and fd = fd7 and buf = "replicate 5000 0x41" and x = ext0]
  by (simp add: max_buf_size_value ext0_def client0_def server0_def page0_def fd7_def
      PGSIZE_def Let_def)

end
